theory Spec2Isabelle
  imports Complex_Main
begin

section \<open>Tensors\<close>

text \<open>
  The model of \<^verbatim>\<open>Models.py\<close>. A tensor carries its shape next to its entries, so that
  a dimension of size 0 keeps the sizes of the dimensions after it, as a torch tensor
  does. The entries are nested lists in row-major order. Token ids are Python integers
  (\<open>int\<close>), masks are Booleans, activations and weights are floats, idealised as \<open>real\<close>.
\<close>

datatype error = AssertionError | IndexError | RuntimeError | ValueError | ZeroDivisionError

datatype 'a tensor2 = Tensor2 (size2: "nat \<times> nat") (data2: "'a list list")

datatype 'a tensor3 = Tensor3 (size3: "nat \<times> nat \<times> nat") (data3: "'a list list list")

definition wf2 :: "'a tensor2 \<Rightarrow> bool" where
  "wf2 t = (length (data2 t) = fst (size2 t) \<and>
            list_all (\<lambda>r. length r = snd (size2 t)) (data2 t))"

definition wf3 :: "'a tensor3 \<Rightarrow> bool" where
  "wf3 t = (length (data3 t) = fst (size3 t) \<and>
            list_all (\<lambda>m. length m = fst (snd (size3 t)) \<and>
                          list_all (\<lambda>r. length r = snd (snd (size3 t))) m) (data3 t))"

definition at2 :: "'a tensor2 \<Rightarrow> nat \<Rightarrow> nat \<Rightarrow> 'a" where
  "at2 t i j = data2 t ! i ! j"

definition at3 :: "'a tensor3 \<Rightarrow> nat \<Rightarrow> nat \<Rightarrow> nat \<Rightarrow> 'a" where
  "at3 t i j k = data3 t ! i ! j ! k"

text \<open>The tensor of a given shape whose entry at \<open>(i, j, k)\<close> is \<open>f i j k\<close>.\<close>

definition mk2 :: "nat \<times> nat \<Rightarrow> (nat \<Rightarrow> nat \<Rightarrow> 'a) \<Rightarrow> 'a tensor2" where
  "mk2 sh f = (case sh of (m, n) \<Rightarrow>
     Tensor2 (m, n) (map (\<lambda>i. map (\<lambda>j. f i j) [0..<n]) [0..<m]))"

definition mk3 :: "nat \<times> nat \<times> nat \<Rightarrow> (nat \<Rightarrow> nat \<Rightarrow> nat \<Rightarrow> 'a) \<Rightarrow> 'a tensor3" where
  "mk3 sh f = (case sh of (a, b, c) \<Rightarrow>
     Tensor3 (a, b, c) (map (\<lambda>i. map (\<lambda>j. map (\<lambda>k. f i j k) [0..<c]) [0..<b]) [0..<a]))"

text \<open>Elementwise operations keep the shape.\<close>

definition tmap2 :: "('a \<Rightarrow> 'b) \<Rightarrow> 'a tensor2 \<Rightarrow> 'b tensor2" where
  "tmap2 f t = Tensor2 (size2 t) (map (map f) (data2 t))"

definition tmap3 :: "('a \<Rightarrow> 'b) \<Rightarrow> 'a tensor3 \<Rightarrow> 'b tensor3" where
  "tmap3 f t = Tensor3 (size3 t) (map (map (map f)) (data3 t))"

text \<open>
  Broadcasting of a binary elementwise operation, as torch does it for two operands of
  three dimensions: in each dimension the sizes are equal or one of them is 1, and a
  dimension of size 1 is read at index 0 whatever the index of the result. Any other pair
  of sizes raises a RuntimeError.
\<close>

definition broadcast_dim :: "nat \<Rightarrow> nat \<Rightarrow> nat option" where
  "broadcast_dim a b =
     (if a = b then Some a else if a = 1 then Some b else if b = 1 then Some a else None)"

definition bidx :: "nat \<Rightarrow> nat \<Rightarrow> nat" where
  "bidx d i = (if d = 1 then 0 else i)"

definition broadcast3 :: "('a \<Rightarrow> 'b \<Rightarrow> 'c) \<Rightarrow> 'a tensor3 \<Rightarrow> 'b tensor3 \<Rightarrow> error + 'c tensor3" where
  "broadcast3 f x y =
     (case size3 x of (a0, a1, a2) \<Rightarrow>
     (case size3 y of (b0, b1, b2) \<Rightarrow>
     (case broadcast_dim a0 b0 of None \<Rightarrow> Inl RuntimeError | Some n0 \<Rightarrow>
     (case broadcast_dim a1 b1 of None \<Rightarrow> Inl RuntimeError | Some n1 \<Rightarrow>
     (case broadcast_dim a2 b2 of None \<Rightarrow> Inl RuntimeError | Some n2 \<Rightarrow>
        Inr (mk3 (n0, n1, n2) (\<lambda>i j k.
          f (at3 x (bidx a0 i) (bidx a1 j) (bidx a2 k))
            (at3 y (bidx b0 i) (bidx b1 j) (bidx b2 k)))))))))"

section \<open>Masks\<close>

text \<open>\<^verbatim>\<open>seq != pad_idx\<close> and \<^verbatim>\<open>.unsqueeze(-2)\<close> on a tensor of two dimensions.\<close>

definition ne_scalar :: "int tensor2 \<Rightarrow> int \<Rightarrow> bool tensor2" where
  "ne_scalar seq c = tmap2 (\<lambda>x. x \<noteq> c) seq"

definition unsqueeze_m2 :: "'a tensor2 \<Rightarrow> 'a tensor3" where
  "unsqueeze_m2 t = (case size2 t of (b, l) \<Rightarrow> Tensor3 (b, 1, l) (map (\<lambda>r. [r]) (data2 t)))"

definition get_pad_mask :: "int tensor2 \<Rightarrow> int \<Rightarrow> bool tensor3" where
  "get_pad_mask seq pad_idx = unsqueeze_m2 (ne_scalar seq pad_idx)"

text \<open>
  \<^verbatim>\<open>torch.ones\<close>, \<^verbatim>\<open>torch.triu(_, diagonal)\<close> (on the last two dimensions: an entry is
  kept where \<open>j - i \<ge> diagonal\<close> and is 0 elsewhere), \<^verbatim>\<open>1 - _\<close> and \<^verbatim>\<open>.bool()\<close>.
\<close>

definition ones3 :: "nat \<times> nat \<times> nat \<Rightarrow> real tensor3" where
  "ones3 sh = mk3 sh (\<lambda>_ _ _. 1)"

definition triu :: "real tensor3 \<Rightarrow> int \<Rightarrow> real tensor3" where
  "triu t diagonal =
     mk3 (size3 t) (\<lambda>b i j. if diagonal \<le> int j - int i then at3 t b i j else 0)"

definition rsub :: "real \<Rightarrow> real tensor3 \<Rightarrow> real tensor3" where
  "rsub c t = tmap3 (\<lambda>x. c - x) t"

definition to_bool :: "real tensor3 \<Rightarrow> bool tensor3" where
  "to_bool t = tmap3 (\<lambda>x. x \<noteq> 0) t"

definition get_subsequent_mask :: "int tensor2 \<Rightarrow> bool tensor3" where
  "get_subsequent_mask seq =
     (case size2 seq of (sz_b, len_s) \<Rightarrow>
        to_bool (rsub 1 (triu (ones3 (1, len_s, len_s)) 1)))"

text \<open>The operator \<^verbatim>\<open>&\<close> on two Boolean tensors.\<close>

definition and_tensor :: "bool tensor3 \<Rightarrow> bool tensor3 \<Rightarrow> error + bool tensor3" where
  "and_tensor x y = broadcast3 (\<lambda>p q. p \<and> q) x y"

text \<open>The number of true entries of a mask.\<close>

definition count_true :: "bool tensor3 \<Rightarrow> nat" where
  "count_true t = length (filter (\<lambda>p. p) (concat (concat (data3 t))))"

section \<open>Positional encoding\<close>

text \<open>
  \<^verbatim>\<open>PositionalEncoding._get_sinusoid_encoding_table\<close>. The angle of position \<open>position\<close> at
  column \<open>hid_j\<close> is \<^verbatim>\<open>position / np.power(10000, 2 * (hid_j // 2) / d_hid)\<close>. The two strided
  assignments \<^verbatim>\<open>table[:, 0::2] = np.sin(table[:, 0::2])\<close> and
  \<^verbatim>\<open>table[:, 1::2] = np.cos(table[:, 1::2])\<close> rewrite every second column from a start
  column on. For \<open>n_position = 0\<close> numpy builds an array of one dimension from the empty
  list, and indexing it with two indices raises an IndexError.
\<close>

definition get_position_angle_vec :: "nat \<Rightarrow> nat \<Rightarrow> real list" where
  "get_position_angle_vec d_hid position =
     map (\<lambda>hid_j. real position / (10000 powr (real (2 * (hid_j div 2)) / real d_hid)))
       [0..<d_hid]"

definition assign_stride2 :: "nat \<Rightarrow> (real \<Rightarrow> real) \<Rightarrow> real list list \<Rightarrow> real list list" where
  "assign_stride2 start f table =
     map (\<lambda>row. map (\<lambda>j. if start \<le> j \<and> (j - start) mod 2 = 0 then f (row ! j) else row ! j)
                     [0..<length row]) table"

definition get_sinusoid_encoding_table :: "nat \<Rightarrow> nat \<Rightarrow> error + real tensor3" where
  "get_sinusoid_encoding_table n_position d_hid =
     (let sinusoid_table = map (get_position_angle_vec d_hid) [0..<n_position] in
      if n_position = 0 then Inl IndexError
      else
        let sinusoid_table = assign_stride2 0 sin sinusoid_table;
            sinusoid_table = assign_stride2 1 cos sinusoid_table
        in Inr (Tensor3 (1, n_position, d_hid) [sinusoid_table]))"

record PositionalEncoding =
  pos_table :: "real tensor3"

definition PositionalEncoding_init :: "nat \<Rightarrow> nat \<Rightarrow> error + PositionalEncoding" where
  "PositionalEncoding_init d_hid n_position =
     (case get_sinusoid_encoding_table n_position d_hid of
        Inl e \<Rightarrow> Inl e
      | Inr t \<Rightarrow> Inr \<lparr>pos_table = t\<rparr>)"

text \<open>
  The slice \<^verbatim>\<open>t[:, :n]\<close> keeps the first \<open>n\<close> entries of dimension 1, or all of them when
  there are fewer: a Python slice never raises. \<^verbatim>\<open>+\<close> broadcasts.
\<close>

definition slice_dim1 :: "'a tensor3 \<Rightarrow> nat \<Rightarrow> 'a tensor3" where
  "slice_dim1 t n = (case size3 t of (a, b, c) \<Rightarrow> Tensor3 (a, min n b, c) (map (take n) (data3 t)))"

definition add_tensor :: "real tensor3 \<Rightarrow> real tensor3 \<Rightarrow> error + real tensor3" where
  "add_tensor x y = broadcast3 (\<lambda>p q. p + q) x y"

definition PositionalEncoding_forward :: "PositionalEncoding \<Rightarrow> real tensor3 \<Rightarrow> error + real tensor3" where
  "PositionalEncoding_forward self x =
     (case size3 x of (b, l, d) \<Rightarrow> add_tensor x (slice_dim1 (pos_table self) l))"

section \<open>Parameters and library modules\<close>

text \<open>
  A parameter of a torch module is a reference to a tensor: two modules share a weight when
  their fields hold the same reference. The model keeps the weights of the embedding
  tables and of the output projection in a store, a function from addresses to tensors,
  and a module holds the address of its weight. The state that a forward pass runs in is
  the store together with the state of the random number generator, which dropout reads
  and advances.
\<close>

type_synonym addr = nat

type_synonym store = "addr \<Rightarrow> real tensor2"

record 'g world =
  params :: store
  rng :: 'g

text \<open>
  \<^verbatim>\<open>nn.Embedding(num_embeddings, embedding_dim, padding_idx)\<close>. Its constructor asserts that
  a positive padding index is below \<open>num_embeddings\<close> and that a negative one is at least
  \<open>- num_embeddings\<close>, which it then counts from the end; it then zeroes the padding row of
  the fresh weight, an IndexError when the table has no such row. The lookup
  (\<^verbatim>\<open>F.embedding\<close>) repeats the two assertions on every call, against the number of rows
  of the weight tensor that the module refers to at that moment, and then raises an
  IndexError for an id outside these rows: the field \<open>num_embeddings\<close> is not consulted.
\<close>

record Embedding =
  num_embeddings :: nat
  embedding_dim :: nat
  padding_idx :: int
  emb_weight :: addr

definition Embedding_init :: "nat \<Rightarrow> nat \<Rightarrow> int \<Rightarrow> addr \<Rightarrow> error + Embedding" where
  "Embedding_init n d pad a =
     (if 0 < pad \<and> \<not> pad < int n then Inl AssertionError
      else if pad < 0 \<and> \<not> - int n \<le> pad then Inl AssertionError
      else
        let p = (if pad < 0 then int n + pad else pad) in
        if \<not> p < int n then Inl IndexError
        else Inr \<lparr>num_embeddings = n, embedding_dim = d, padding_idx = p, emb_weight = a\<rparr>)"

definition Embedding_forward :: "store \<Rightarrow> Embedding \<Rightarrow> int tensor2 \<Rightarrow> error + real tensor3" where
  "Embedding_forward st self input =
     (let w = st (emb_weight self) in
      (case size2 input of (b, l) \<Rightarrow>
      (case size2 w of (n, d) \<Rightarrow>
        if 0 < padding_idx self \<and> \<not> padding_idx self < int n then Inl AssertionError
        else if padding_idx self < 0 \<and> \<not> - int n \<le> padding_idx self then Inl AssertionError
        else if list_all (list_all (\<lambda>i. 0 \<le> i \<and> i < int n)) (data2 input)
        then Inr (Tensor3 (b, l, d) (map (map (\<lambda>i. data2 w ! nat i)) (data2 input)))
        else Inl IndexError)))"

text \<open>
  \<^verbatim>\<open>nn.Linear(in_features, out_features, bias=False)\<close>: the weight has shape
  \<open>(out_features, in_features)\<close>, and the module maps the last dimension of its input, which
  must have the size of a row of the weight, to the products with the rows of the weight.
\<close>

record Linear =
  in_features :: nat
  out_features :: nat
  lin_weight :: addr

definition dot :: "real list \<Rightarrow> real list \<Rightarrow> real" where
  "dot u v = sum_list (map (\<lambda>(p, q). p * q) (zip u v))"

definition Linear_forward :: "store \<Rightarrow> Linear \<Rightarrow> real tensor3 \<Rightarrow> error + real tensor3" where
  "Linear_forward st self x =
     (let w = st (lin_weight self) in
      (case size3 x of (b, l, k) \<Rightarrow>
      (case size2 w of (v, d) \<Rightarrow>
        if k \<noteq> d then Inl RuntimeError
        else Inr (Tensor3 (b, l, v)
               (map (map (\<lambda>u. map (\<lambda>row. dot u row) (data2 w))) (data3 x))))))"

text \<open>
  Multiplication of a tensor by a Python float, the float power of a Python integer
  (\<^verbatim>\<open>d ** 0.5\<close>, \<^verbatim>\<open>d ** -0.5\<close>; zero to a negative power raises), and
  \<^verbatim>\<open>t.view(-1, t.size(2))\<close>, which raises when the last dimension is 0.
\<close>

definition mul_scalar :: "real tensor3 \<Rightarrow> real \<Rightarrow> real tensor3" where
  "mul_scalar t c = tmap3 (\<lambda>x. x * c) t"

definition py_pow :: "nat \<Rightarrow> real \<Rightarrow> error + real" where
  "py_pow b e =
     (if b = 0 then (if e < 0 then Inl ZeroDivisionError else if e = 0 then Inr 1 else Inr 0)
      else Inr (real b powr e))"

definition view_rows :: "'a tensor3 \<Rightarrow> error + 'a tensor2" where
  "view_rows t =
     (case size3 t of (a, b, c) \<Rightarrow>
        if c = 0 then Inl RuntimeError else Inr (Tensor2 (a * b, c) (concat (data3 t))))"

section \<open>The layers and the library\<close>

text \<open>
  The encoder and decoder layers (\<^verbatim>\<open>transformer.Layers\<close>), dropout and layer normalisation
  are not part of \<^verbatim>\<open>Models.py\<close>. A layer is a function of the state of the random number
  generator and of its inputs, which returns its outputs and the new state of the
  generator; \<open>'a\<close> is the type of an attention matrix. The constructors are total, and
  take the position of the layer in its stack: every constructed layer has weights of its
  own. \<open>xavier_uniform a i j\<close> is the value that the initialisation draws for entry \<open>(i, j)\<close>
  of the parameter at address \<open>a\<close>.
\<close>

type_synonym ('g, 'a) EncoderLayer =
  "'g \<Rightarrow> real tensor3 \<Rightarrow> bool tensor3 \<Rightarrow> (real tensor3 \<times> 'a) \<times> 'g"

type_synonym ('g, 'a) DecoderLayer =
  "'g \<Rightarrow> real tensor3 \<Rightarrow> real tensor3 \<Rightarrow> bool tensor3 \<Rightarrow> bool tensor3
     \<Rightarrow> (real tensor3 \<times> 'a \<times> 'a) \<times> 'g"

type_synonym 'g Dropout = "'g \<Rightarrow> real tensor3 \<Rightarrow> real tensor3 \<times> 'g"

type_synonym LayerNorm = "real tensor3 \<Rightarrow> real tensor3"

record ('g, 'a) library =
  new_EncoderLayer :: "nat \<Rightarrow> nat \<Rightarrow> nat \<Rightarrow> nat \<Rightarrow> nat \<Rightarrow> nat \<Rightarrow> real \<Rightarrow> ('g, 'a) EncoderLayer"
  new_DecoderLayer :: "nat \<Rightarrow> nat \<Rightarrow> nat \<Rightarrow> nat \<Rightarrow> nat \<Rightarrow> nat \<Rightarrow> real \<Rightarrow> ('g, 'a) DecoderLayer"
  new_Dropout :: "real \<Rightarrow> 'g Dropout"
  new_LayerNorm :: "nat \<Rightarrow> LayerNorm"
  xavier_uniform :: "addr \<Rightarrow> nat \<Rightarrow> nat \<Rightarrow> real"

text \<open>\<^verbatim>\<open>nn.Dropout(p)\<close> raises a ValueError for a probability outside \<open>[0, 1]\<close>.\<close>

definition Dropout_init :: "('g, 'a) library \<Rightarrow> real \<Rightarrow> error + 'g Dropout" where
  "Dropout_init lib p = (if p < 0 \<or> 1 < p then Inl ValueError else Inr (new_Dropout lib p))"

section \<open>Encoder\<close>

record ('g, 'a) Encoder =
  src_word_emb :: Embedding
  enc_position_enc :: PositionalEncoding
  enc_dropout :: "'g Dropout"
  enc_layer_stack :: "('g, 'a) EncoderLayer list"
  enc_layer_norm :: LayerNorm
  enc_scale_emb :: bool
  enc_d_model :: nat

text \<open>
  \<^verbatim>\<open>Encoder.__init__\<close>. The argument \<open>a\<close> is the address at which the weight of the
  embedding table is stored.
\<close>

definition Encoder_init ::
  "('g, 'a) library \<Rightarrow> addr \<Rightarrow> nat \<Rightarrow> nat \<Rightarrow> nat \<Rightarrow> nat \<Rightarrow> nat \<Rightarrow> nat \<Rightarrow> nat \<Rightarrow> nat \<Rightarrow> int
     \<Rightarrow> real \<Rightarrow> nat \<Rightarrow> bool \<Rightarrow> error + ('g, 'a) Encoder" where
  "Encoder_init lib a n_src_vocab d_word_vec n_layers n_head d_k d_v d_model d_inner pad_idx
       dropout n_position scale_emb =
     (case Embedding_init n_src_vocab d_word_vec pad_idx a of Inl e \<Rightarrow> Inl e | Inr emb \<Rightarrow>
     (case PositionalEncoding_init d_word_vec n_position of Inl e \<Rightarrow> Inl e | Inr pe \<Rightarrow>
     (case Dropout_init lib dropout of Inl e \<Rightarrow> Inl e | Inr dr \<Rightarrow>
        Inr \<lparr>src_word_emb = emb,
             enc_position_enc = pe,
             enc_dropout = dr,
             enc_layer_stack =
               map (\<lambda>k. new_EncoderLayer lib k d_model d_inner n_head d_k d_v dropout)
                 [0..<n_layers],
             enc_layer_norm = new_LayerNorm lib d_model,
             enc_scale_emb = scale_emb,
             enc_d_model = d_model\<rparr>)))"

text \<open>
  The result of \<^verbatim>\<open>Encoder.forward\<close> is a tuple of one component, or of two when the
  attention matrices are asked for. The caller's \<^verbatim>\<open>enc_output, *_ = ...\<close> takes the first.
\<close>

datatype 'a enc_result = EncOut "real tensor3" | EncOutAttns "real tensor3" "'a list"

fun enc_primary :: "'a enc_result \<Rightarrow> real tensor3" where
  "enc_primary (EncOut enc_output) = enc_output"
| "enc_primary (EncOutAttns enc_output enc_slf_attn_list) = enc_output"

text \<open>The loop over \<^verbatim>\<open>self.layer_stack\<close>, on the triple of the variables it updates.\<close>

fun enc_stack ::
  "('g, 'a) EncoderLayer list \<Rightarrow> bool tensor3 \<Rightarrow> bool \<Rightarrow> real tensor3 \<times> 'a list \<times> 'g
     \<Rightarrow> real tensor3 \<times> 'a list \<times> 'g" where
  "enc_stack [] src_mask return_attns s = s"
| "enc_stack (enc_layer # layers) src_mask return_attns (enc_output, enc_slf_attn_list, g) =
     (case enc_layer g enc_output src_mask of ((enc_output', enc_slf_attn), g') \<Rightarrow>
        enc_stack layers src_mask return_attns
          (enc_output', enc_slf_attn_list @ (if return_attns then [enc_slf_attn] else []), g'))"

definition scale_by_sqrt :: "bool \<Rightarrow> nat \<Rightarrow> real tensor3 \<Rightarrow> error + real tensor3" where
  "scale_by_sqrt scale_emb d_model x =
     (if scale_emb
      then (case py_pow d_model (1 / 2) of Inl e \<Rightarrow> Inl e | Inr c \<Rightarrow> Inr (mul_scalar x c))
      else Inr x)"

definition Encoder_forward ::
  "('g, 'a) Encoder \<Rightarrow> 'g world \<Rightarrow> int tensor2 \<Rightarrow> bool tensor3 \<Rightarrow> bool
     \<Rightarrow> error + ('a enc_result \<times> 'g world)" where
  "Encoder_forward self w src_seq src_mask return_attns =
     (case Embedding_forward (params w) (src_word_emb self) src_seq of Inl e \<Rightarrow> Inl e
      | Inr enc_output \<Rightarrow>
     (case scale_by_sqrt (enc_scale_emb self) (enc_d_model self) enc_output of Inl e \<Rightarrow> Inl e
      | Inr enc_output \<Rightarrow>
     (case PositionalEncoding_forward (enc_position_enc self) enc_output of Inl e \<Rightarrow> Inl e
      | Inr enc_output \<Rightarrow>
     (case enc_dropout self (rng w) enc_output of (enc_output, g) \<Rightarrow>
     (case enc_stack (enc_layer_stack self) src_mask return_attns
             (enc_layer_norm self enc_output, [], g) of
        (enc_output, enc_slf_attn_list, g) \<Rightarrow>
          Inr (if return_attns then EncOutAttns enc_output enc_slf_attn_list
               else EncOut enc_output,
               w\<lparr>rng := g\<rparr>))))))"

section \<open>Decoder\<close>

record ('g, 'a) Decoder =
  trg_word_emb :: Embedding
  dec_position_enc :: PositionalEncoding
  dec_dropout :: "'g Dropout"
  dec_layer_stack :: "('g, 'a) DecoderLayer list"
  dec_layer_norm :: LayerNorm
  dec_scale_emb :: bool
  dec_d_model :: nat

definition Decoder_init ::
  "('g, 'a) library \<Rightarrow> addr \<Rightarrow> nat \<Rightarrow> nat \<Rightarrow> nat \<Rightarrow> nat \<Rightarrow> nat \<Rightarrow> nat \<Rightarrow> nat \<Rightarrow> nat \<Rightarrow> int
     \<Rightarrow> nat \<Rightarrow> real \<Rightarrow> bool \<Rightarrow> error + ('g, 'a) Decoder" where
  "Decoder_init lib a n_trg_vocab d_word_vec n_layers n_head d_k d_v d_model d_inner pad_idx
       n_position dropout scale_emb =
     (case Embedding_init n_trg_vocab d_word_vec pad_idx a of Inl e \<Rightarrow> Inl e | Inr emb \<Rightarrow>
     (case PositionalEncoding_init d_word_vec n_position of Inl e \<Rightarrow> Inl e | Inr pe \<Rightarrow>
     (case Dropout_init lib dropout of Inl e \<Rightarrow> Inl e | Inr dr \<Rightarrow>
        Inr \<lparr>trg_word_emb = emb,
             dec_position_enc = pe,
             dec_dropout = dr,
             dec_layer_stack =
               map (\<lambda>k. new_DecoderLayer lib k d_model d_inner n_head d_k d_v dropout)
                 [0..<n_layers],
             dec_layer_norm = new_LayerNorm lib d_model,
             dec_scale_emb = scale_emb,
             dec_d_model = d_model\<rparr>)))"

datatype 'a dec_result =
  DecOut "real tensor3" | DecOutAttns "real tensor3" "'a list" "'a list"

fun dec_primary :: "'a dec_result \<Rightarrow> real tensor3" where
  "dec_primary (DecOut dec_output) = dec_output"
| "dec_primary (DecOutAttns dec_output dec_slf_attn_list dec_enc_attn_list) = dec_output"

fun dec_stack ::
  "('g, 'a) DecoderLayer list \<Rightarrow> real tensor3 \<Rightarrow> bool tensor3 \<Rightarrow> bool tensor3 \<Rightarrow> bool
     \<Rightarrow> real tensor3 \<times> 'a list \<times> 'a list \<times> 'g \<Rightarrow> real tensor3 \<times> 'a list \<times> 'a list \<times> 'g" where
  "dec_stack [] enc_output trg_mask src_mask return_attns s = s"
| "dec_stack (dec_layer # layers) enc_output trg_mask src_mask return_attns
       (dec_output, dec_slf_attn_list, dec_enc_attn_list, g) =
     (case dec_layer g dec_output enc_output trg_mask src_mask of
        ((dec_output', dec_slf_attn, dec_enc_attn), g') \<Rightarrow>
          dec_stack layers enc_output trg_mask src_mask return_attns
            (dec_output',
             dec_slf_attn_list @ (if return_attns then [dec_slf_attn] else []),
             dec_enc_attn_list @ (if return_attns then [dec_enc_attn] else []),
             g'))"

definition Decoder_forward ::
  "('g, 'a) Decoder \<Rightarrow> 'g world \<Rightarrow> int tensor2 \<Rightarrow> bool tensor3 \<Rightarrow> real tensor3 \<Rightarrow> bool tensor3
     \<Rightarrow> bool \<Rightarrow> error + ('a dec_result \<times> 'g world)" where
  "Decoder_forward self w trg_seq trg_mask enc_output src_mask return_attns =
     (case Embedding_forward (params w) (trg_word_emb self) trg_seq of Inl e \<Rightarrow> Inl e
      | Inr dec_output \<Rightarrow>
     (case scale_by_sqrt (dec_scale_emb self) (dec_d_model self) dec_output of Inl e \<Rightarrow> Inl e
      | Inr dec_output \<Rightarrow>
     (case PositionalEncoding_forward (dec_position_enc self) dec_output of Inl e \<Rightarrow> Inl e
      | Inr dec_output \<Rightarrow>
     (case dec_dropout self (rng w) dec_output of (dec_output, g) \<Rightarrow>
     (case dec_stack (dec_layer_stack self) enc_output trg_mask src_mask return_attns
             (dec_layer_norm self dec_output, [], [], g) of
        (dec_output, dec_slf_attn_list, dec_enc_attn_list, g) \<Rightarrow>
          Inr (if return_attns then DecOutAttns dec_output dec_slf_attn_list dec_enc_attn_list
               else DecOut dec_output,
               w\<lparr>rng := g\<rparr>))))))"

section \<open>Transformer\<close>

text \<open>The arguments of \<^verbatim>\<open>Transformer.__init__\<close>.\<close>

record args =
  n_src_vocab :: nat
  n_trg_vocab :: nat
  src_pad_idx :: int
  trg_pad_idx :: int
  d_word_vec :: nat
  d_model :: nat
  d_inner :: nat
  n_layers :: nat
  n_head :: nat
  d_k :: nat
  d_v :: nat
  dropout :: real
  n_position :: nat
  trg_emb_prj_weight_sharing :: bool
  emb_src_trg_weight_sharing :: bool
  scale_emb_or_prj :: string

record ('g, 'a) Transformer =
  self_src_pad_idx :: int
  self_trg_pad_idx :: int
  scale_prj :: bool
  self_d_model :: nat
  encoder :: "('g, 'a) Encoder"
  decoder :: "('g, 'a) Decoder"
  trg_word_prj :: Linear

text \<open>
  \<^verbatim>\<open>Transformer.__init__\<close>. The weights of the source embedding, of the target embedding
  and of the projection are created at the addresses 0, 1 and 2, and the loop over
  \<^verbatim>\<open>self.parameters()\<close> initialises each of them, having two dimensions. The two
  assignments at the end replace a reference to a weight by another reference. The result
  is the module together with the store of its weights.
\<close>

definition new_store :: "('g, 'a) library \<Rightarrow> args \<Rightarrow> store" where
  "new_store lib c =
     (\<lambda>a. Tensor2 (0, 0) [])
       (0 := mk2 (n_src_vocab c, d_word_vec c) (xavier_uniform lib 0),
        1 := mk2 (n_trg_vocab c, d_word_vec c) (xavier_uniform lib 1),
        2 := mk2 (n_trg_vocab c, d_model c) (xavier_uniform lib 2))"

definition Transformer_init ::
  "('g, 'a) library \<Rightarrow> args \<Rightarrow> error + (('g, 'a) Transformer \<times> store)" where
  "Transformer_init lib c =
     (if scale_emb_or_prj c \<notin> set [''emb'', ''prj'', ''none''] then Inl AssertionError
      else
        let scale_emb =
              (if trg_emb_prj_weight_sharing c then scale_emb_or_prj c = ''emb'' else False);
            scale_prj =
              (if trg_emb_prj_weight_sharing c then scale_emb_or_prj c = ''prj'' else False)
        in
        (case Encoder_init lib 0 (n_src_vocab c) (d_word_vec c) (n_layers c) (n_head c) (d_k c)
                (d_v c) (d_model c) (d_inner c) (src_pad_idx c) (dropout c) (n_position c)
                scale_emb of Inl e \<Rightarrow> Inl e
         | Inr enc \<Rightarrow>
        (case Decoder_init lib 1 (n_trg_vocab c) (d_word_vec c) (n_layers c) (n_head c) (d_k c)
                (d_v c) (d_model c) (d_inner c) (trg_pad_idx c) (n_position c) (dropout c)
                scale_emb of Inl e \<Rightarrow> Inl e
         | Inr dec \<Rightarrow>
           let prj = \<lparr>in_features = d_model c, out_features = n_trg_vocab c, lin_weight = 2\<rparr>;
               st = new_store lib c
           in
           if d_model c \<noteq> d_word_vec c then Inl AssertionError
           else
             let prj = (if trg_emb_prj_weight_sharing c
                        then prj\<lparr>lin_weight := emb_weight (trg_word_emb dec)\<rparr> else prj);
                 enc = (if emb_src_trg_weight_sharing c
                        then enc\<lparr>src_word_emb :=
                               (src_word_emb enc)\<lparr>emb_weight := emb_weight (trg_word_emb dec)\<rparr>\<rparr>
                        else enc)
             in Inr (\<lparr>self_src_pad_idx = src_pad_idx c,
                      self_trg_pad_idx = trg_pad_idx c,
                      scale_prj = scale_prj,
                      self_d_model = d_model c,
                      encoder = enc,
                      decoder = dec,
                      trg_word_prj = prj\<rparr>, st))))"

text \<open>
  \<^verbatim>\<open>Transformer.forward\<close>: \<open>seq_logit\<close> is the value of the variable of that name before the
  last line, which flattens it.
\<close>

definition seq_logit ::
  "('g, 'a) Transformer \<Rightarrow> 'g world \<Rightarrow> int tensor2 \<Rightarrow> int tensor2
     \<Rightarrow> error + (real tensor3 \<times> 'g world)" where
  "seq_logit self w src_seq trg_seq =
     (let src_mask = get_pad_mask src_seq (self_src_pad_idx self) in
      (case and_tensor (get_pad_mask trg_seq (self_trg_pad_idx self))
              (get_subsequent_mask trg_seq) of Inl e \<Rightarrow> Inl e
       | Inr trg_mask \<Rightarrow>
      (case Encoder_forward (encoder self) w src_seq src_mask False of Inl e \<Rightarrow> Inl e
       | Inr (enc_res, w) \<Rightarrow>
      (case Decoder_forward (decoder self) w trg_seq trg_mask (enc_primary enc_res) src_mask
              False of Inl e \<Rightarrow> Inl e
       | Inr (dec_res, w) \<Rightarrow>
      (case Linear_forward (params w) (trg_word_prj self) (dec_primary dec_res) of
         Inl e \<Rightarrow> Inl e
       | Inr seq_logit \<Rightarrow>
           if scale_prj self
           then (case py_pow (self_d_model self) (- (1 / 2)) of Inl e \<Rightarrow> Inl e
                 | Inr c \<Rightarrow> Inr (mul_scalar seq_logit c, w))
           else Inr (seq_logit, w))))))"

definition Transformer_forward ::
  "('g, 'a) Transformer \<Rightarrow> 'g world \<Rightarrow> int tensor2 \<Rightarrow> int tensor2
     \<Rightarrow> error + (real tensor2 \<times> 'g world)" where
  "Transformer_forward self w src_seq trg_seq =
     (case seq_logit self w src_seq trg_seq of Inl e \<Rightarrow> Inl e
      | Inr (logit, w) \<Rightarrow>
     (case view_rows logit of Inl e \<Rightarrow> Inl e
      | Inr out \<Rightarrow> Inr (out, w)))"

section \<open>The stacks as the specification describes them\<close>

text \<open>
  The specification describes a stack as the sequential application of its blocks, each
  of which receives the masks and produces an updated representation and its attention
  matrices; the matrices are listed per layer, in layer order. These two functions follow
  that description, without the flag and without accumulators; the loops of the source
  are compared with them.
\<close>

fun spec_encoder_blocks ::
  "('g, 'a) EncoderLayer list \<Rightarrow> bool tensor3 \<Rightarrow> 'g \<Rightarrow> real tensor3 \<Rightarrow> real tensor3 \<times> 'a list \<times> 'g" where
  "spec_encoder_blocks [] src_mask g x = (x, [], g)"
| "spec_encoder_blocks (block # blocks) src_mask g x =
     (case block g x src_mask of ((x', attn), g') \<Rightarrow>
     (case spec_encoder_blocks blocks src_mask g' x' of (y, attns, g'') \<Rightarrow>
        (y, attn # attns, g'')))"

fun spec_decoder_blocks ::
  "('g, 'a) DecoderLayer list \<Rightarrow> real tensor3 \<Rightarrow> bool tensor3 \<Rightarrow> bool tensor3 \<Rightarrow> 'g \<Rightarrow> real tensor3
     \<Rightarrow> real tensor3 \<times> 'a list \<times> 'a list \<times> 'g" where
  "spec_decoder_blocks [] enc_output self_mask cross_mask g x = (x, [], [], g)"
| "spec_decoder_blocks (block # blocks) enc_output self_mask cross_mask g x =
     (case block g x enc_output self_mask cross_mask of ((x', self_attn, cross_attn), g') \<Rightarrow>
     (case spec_decoder_blocks blocks enc_output self_mask cross_mask g' x' of
        (y, self_attns, cross_attns, g'') \<Rightarrow>
          (y, self_attn # self_attns, cross_attn # cross_attns, g'')))"

section \<open>The arguments that the constructor accepts\<close>

text \<open>
  The checks that \<open>Transformer_init\<close> runs through, collected: the assertion on the scaling
  selector, the checks of the two embeddings on their padding index, the table of at
  least one position, the dropout probability, and the assertion that the two dimensions
  agree. The lemma \<open>Transformer_init_succeeds_iff\<close> shows that the constructor returns
  exactly for these arguments. The two vocabulary sizes are not compared.
\<close>

definition accepted_args :: "args \<Rightarrow> bool" where
  "accepted_args c =
     (scale_emb_or_prj c \<in> set [''emb'', ''prj'', ''none'']
      \<and> - int (n_src_vocab c) \<le> src_pad_idx c \<and> src_pad_idx c < int (n_src_vocab c)
      \<and> - int (n_trg_vocab c) \<le> trg_pad_idx c \<and> trg_pad_idx c < int (n_trg_vocab c)
      \<and> 0 < n_position c
      \<and> 0 \<le> dropout c \<and> dropout c \<le> 1
      \<and> d_model c = d_word_vec c)"

section \<open>A small instance\<close>

text \<open>
  An instance on which the theorems below are exercised. The state of the random number
  generator is a counter, which dropout and every layer advance; a layer returns its
  input and, as its attention matrices, its position in the stack. The vocabularies have
  3 and 4 entries, the model dimension is 2, and both weight sharing switches are on.
\<close>

definition example_library :: "(nat, nat) library" where
  "example_library =
     \<lparr>new_EncoderLayer = (\<lambda>k d_model d_inner n_head d_k d_v p g x src_mask. ((x, k), Suc g)),
      new_DecoderLayer =
        (\<lambda>k d_model d_inner n_head d_k d_v p g x enc_output trg_mask src_mask.
           ((x, k, k), Suc g)),
      new_Dropout = (\<lambda>p g x. (x, Suc g)),
      new_LayerNorm = (\<lambda>d x. x),
      xavier_uniform = (\<lambda>a i j. real (a + i + j))\<rparr>"

definition example_args :: args where
  "example_args =
     \<lparr>n_src_vocab = 3, n_trg_vocab = 4, src_pad_idx = 0, trg_pad_idx = 0,
      d_word_vec = 2, d_model = 2, d_inner = 4, n_layers = 2, n_head = 1, d_k = 2, d_v = 2,
      dropout = 1 / 10, n_position = 4,
      trg_emb_prj_weight_sharing = True, emb_src_trg_weight_sharing = True,
      scale_emb_or_prj = ''prj''\<rparr>"

section \<open>The contract of the layers\<close>

text \<open>
  Modelled from the spec: the encoder and decoder layers of \<^verbatim>\<open>transformer.Layers\<close> and the
  modules of torch are not in \<^verbatim>\<open>Models.py\<close>. The specification gives the contract of an
  attention block as \<open>(x, mask) -> (x', attn_weights)\<close>, preserving the shape of \<open>x\<close>;
  dropout and layer normalisation are elementwise or act on the last dimension, and
  preserve the shape as well.
\<close>

definition keeps_shape :: "real tensor3 \<Rightarrow> real tensor3 \<Rightarrow> bool" where
  "keeps_shape x y = (wf3 y \<and> size3 y = size3 x)"

definition layers_preserve_shape :: "('g, 'a) library \<Rightarrow> bool" where
  "layers_preserve_shape lib =
     ((\<forall>k d_model d_inner n_head d_k d_v p g x src_mask. wf3 x \<longrightarrow>
         keeps_shape x
           (fst (fst (new_EncoderLayer lib k d_model d_inner n_head d_k d_v p g x src_mask))))
      \<and> (\<forall>k d_model d_inner n_head d_k d_v p g x enc_output trg_mask src_mask. wf3 x \<longrightarrow>
         keeps_shape x
           (fst (fst (new_DecoderLayer lib k d_model d_inner n_head d_k d_v p g x enc_output
                        trg_mask src_mask))))
      \<and> (\<forall>p g x. wf3 x \<longrightarrow> keeps_shape x (fst (new_Dropout lib p g x)))
      \<and> (\<forall>d x. wf3 x \<longrightarrow> keeps_shape x (new_LayerNorm lib d x)))"

section \<open>Lemmas on tensors\<close>

lemma size3_mk3: "size3 (mk3 (a, b, c) f) = (a, b, c)"
  by (simp add: mk3_def)

lemma wf3_mk3: "wf3 (mk3 (a, b, c) f)"
  by (simp add: mk3_def wf3_def list_all_iff)

lemma at3_mk3: "i < a \<Longrightarrow> j < b \<Longrightarrow> k < c \<Longrightarrow> at3 (mk3 (a, b, c) f) i j k = f i j k"
  by (simp add: mk3_def at3_def)

lemma mk3_cong:
  "(\<And>i j k. i < a \<Longrightarrow> j < b \<Longrightarrow> k < c \<Longrightarrow> f i j k = g i j k) \<Longrightarrow> mk3 (a, b, c) f = mk3 (a, b, c) g"
  by (simp add: mk3_def)

lemma tmap3_mk3: "tmap3 h (mk3 (a, b, c) f) = mk3 (a, b, c) (\<lambda>i j k. h (f i j k))"
  by (simp add: tmap3_def mk3_def comp_def)

lemma triu_mk3:
  "triu (mk3 (a, b, c) f) d = mk3 (a, b, c) (\<lambda>n i j. if d \<le> int j - int i then f n i j else 0)"
  unfolding triu_def size3_mk3 by (rule mk3_cong) (simp add: at3_mk3)

lemma get_subsequent_mask_mk3:
  "size2 seq = (B, L) \<Longrightarrow> get_subsequent_mask seq = mk3 (1, L, L) (\<lambda>n i j. j \<le> i)"
  unfolding get_subsequent_mask_def ones3_def rsub_def to_bool_def
  by (simp add: triu_mk3 tmap3_mk3) (rule mk3_cong, auto)

lemma count_concat_map:
  "length (filter P (concat (map f [0..<n]))) = (\<Sum>i<n. length (filter P (f i)))"
  by (induction n) simp_all

lemma count_le_row: "i < L \<Longrightarrow> length (filter (\<lambda>j. j \<le> i) [0..<L]) = Suc i"
proof -
  assume "i < L"
  have "length (filter (\<lambda>j. j \<le> i) [0..<L]) = card ({j. j \<le> i} \<inter> set [0..<L])"
    by (simp add: distinct_length_filter)
  also have "{j. j \<le> i} \<inter> set [0..<L] = {..i}" using \<open>i < L\<close> by auto
  finally show ?thesis by simp
qed

lemma count_true_lower: "count_true (mk3 (1, L, L) (\<lambda>n i j. j \<le> i)) = L * (L + 1) div 2"
proof -
  have "count_true (mk3 (1, L, L) (\<lambda>n i j. j \<le> i))
      = (\<Sum>i<L. length (filter (\<lambda>p. p) (map (\<lambda>j. j \<le> i) [0..<L])))"
    by (simp add: count_true_def mk3_def count_concat_map)
  also have "\<dots> = (\<Sum>i<L. Suc i)"
    by (rule sum.cong) (simp_all add: count_le_row filter_map comp_def)
  also have "\<dots> = L * (L + 1) div 2"
    by (induction L) simp_all
  finally show ?thesis .
qed

section \<open>The masks\<close>

lemma size3_get_pad_mask: "size2 seq = (B, L) \<Longrightarrow> size3 (get_pad_mask seq pad) = (B, 1, L)"
  by (simp add: get_pad_mask_def unsqueeze_m2_def ne_scalar_def tmap2_def)

lemma wf3_get_pad_mask: "wf2 seq \<Longrightarrow> wf3 (get_pad_mask seq pad)"
  by (cases "size2 seq")
     (simp add: get_pad_mask_def unsqueeze_m2_def ne_scalar_def tmap2_def wf2_def wf3_def
        list_all_iff)

lemma at3_get_pad_mask:
  "wf2 seq \<Longrightarrow> size2 seq = (B, L) \<Longrightarrow> b < B \<Longrightarrow> t < L \<Longrightarrow>
   at3 (get_pad_mask seq pad) b 0 t = (at2 seq b t \<noteq> pad)"
  by (simp add: get_pad_mask_def unsqueeze_m2_def ne_scalar_def tmap2_def wf2_def at3_def at2_def
        list_all_iff)

text \<open>
  Claim C3. For a sequence tensor of shape \<open>(B, L)\<close> and any pad index, \<open>get_pad_mask\<close>
  returns a Boolean tensor of shape \<open>(B, 1, L)\<close> whose entry \<open>[b, 0, t]\<close> is
  \<open>seq[b, t] \<noteq> pad_idx\<close>. The function of the source reads its two arguments and assigns
  nothing, so the model is a function of these two arguments alone.
\<close>

theorem get_pad_mask_correct:
  assumes "wf2 seq" and "size2 seq = (B, L)"
  shows "size3 (get_pad_mask seq pad_idx) = (B, 1, L)
       \<and> wf3 (get_pad_mask seq pad_idx)
       \<and> (\<forall>b<B. \<forall>t<L. at3 (get_pad_mask seq pad_idx) b 0 t = (at2 seq b t \<noteq> pad_idx))"
  using assms by (simp add: size3_get_pad_mask wf3_get_pad_mask at3_get_pad_mask)

lemma ex_seq_wf: "wf2 (Tensor2 (1, 3) [[1, 2, 0::int]])"
  by (simp add: wf2_def)

theorem get_pad_mask_correct_witness:
  "wf2 (Tensor2 (1, 3) [[1, 2, 0::int]])
   \<and> get_pad_mask (Tensor2 (1, 3) [[1, 2, 0]]) 0 = Tensor3 (1, 1, 3) [[[True, True, False]]]
   \<and> at3 (get_pad_mask (Tensor2 (1, 3) [[1, 2, 0]]) 0) 0 0 2 = (at2 (Tensor2 (1, 3) [[1, 2, 0::int]]) 0 2 \<noteq> 0)"
  using get_pad_mask_correct [OF ex_seq_wf, of 1 3 0]
  by (simp add: wf2_def get_pad_mask_def unsqueeze_m2_def ne_scalar_def tmap2_def)

lemma count_true_get_subsequent_mask:
  "size2 seq = (B, L) \<Longrightarrow> count_true (get_subsequent_mask seq) = L * (L + 1) div 2"
  by (simp only: get_subsequent_mask_mk3 count_true_lower)

text \<open>
  Claim C2. For a sequence tensor of shape \<open>(B, L)\<close>, \<open>get_subsequent_mask\<close> returns a
  Boolean tensor of shape \<open>(1, L, L)\<close> whose entry \<open>(i, j)\<close> is true exactly when
  \<open>j \<le> i\<close>; it has \<open>L * (L + 1) / 2\<close> true entries, and any other sequence tensor of
  the same length, whatever its batch size and contents, gives the same mask.
\<close>

theorem get_subsequent_mask_correct:
  assumes "size2 seq = (B, L)"
  shows "size3 (get_subsequent_mask seq) = (1, L, L)
       \<and> wf3 (get_subsequent_mask seq)
       \<and> (\<forall>i<L. \<forall>j<L. at3 (get_subsequent_mask seq) 0 i j = (j \<le> i))
       \<and> count_true (get_subsequent_mask seq) = L * (L + 1) div 2
       \<and> (\<forall>seq' B'. size2 seq' = (B', L) \<longrightarrow> get_subsequent_mask seq' = get_subsequent_mask seq)"
proof (intro conjI allI impI)
  show "count_true (get_subsequent_mask seq) = L * (L + 1) div 2"
    using assms by (rule count_true_get_subsequent_mask)
qed (simp_all add: get_subsequent_mask_mk3 [OF assms] get_subsequent_mask_mk3 size3_mk3 wf3_mk3 at3_mk3)

lemma upt3: "[0..<3] = [0, 1, 2]"
  by (simp add: upt_rec)

theorem get_subsequent_mask_correct_witness:
  "get_subsequent_mask (Tensor2 (1, 3) [[1, 2, 0]])
     = Tensor3 (1, 3, 3) [[[True, False, False], [True, True, False], [True, True, True]]]
   \<and> count_true (get_subsequent_mask (Tensor2 (1, 3) [[1, 2, 0]])) = 6
   \<and> get_subsequent_mask (Tensor2 (2, 3) [[7, 7, 7], [0, 0, 0]])
     = get_subsequent_mask (Tensor2 (1, 3) [[1, 2, 0]])"
  using get_subsequent_mask_correct [of "Tensor2 (1, 3) [[1, 2, 0]]" 1 3]
  by (simp add: get_subsequent_mask_mk3 mk3_def upt3)

section \<open>Broadcasting and the target mask\<close>

lemma bidx_lt: "i < d \<Longrightarrow> bidx d i = i"
  by (auto simp: bidx_def)

lemma bidx_1: "bidx (Suc 0) i = 0"
  by (simp add: bidx_def)

lemma broadcast_dim_same: "broadcast_dim a a = Some a"
  by (simp add: broadcast_dim_def)

lemma broadcast_dim_one_right: "broadcast_dim a (Suc 0) = Some a"
  by (simp add: broadcast_dim_def)

lemma broadcast_dim_one_left: "broadcast_dim (Suc 0) b = Some b"
  by (auto simp: broadcast_dim_def)

lemma broadcast3_Inr:
  assumes "size3 x = (a0, a1, a2)" "size3 y = (b0, b1, b2)"
    and "broadcast_dim a0 b0 = Some n0" "broadcast_dim a1 b1 = Some n1" "broadcast_dim a2 b2 = Some n2"
  shows "broadcast3 f x y = Inr (mk3 (n0, n1, n2) (\<lambda>i j k.
          f (at3 x (bidx a0 i) (bidx a1 j) (bidx a2 k))
            (at3 y (bidx b0 i) (bidx b1 j) (bidx b2 k))))"
  using assms by (simp add: broadcast3_def)

lemma target_mask_mk3:
  assumes "wf2 seq" "size2 seq = (B, L)"
  shows "and_tensor (get_pad_mask seq pad) (get_subsequent_mask seq)
       = Inr (mk3 (B, L, L) (\<lambda>b i j. at2 seq b j \<noteq> pad \<and> j \<le> i))"
proof -
  have "and_tensor (get_pad_mask seq pad) (get_subsequent_mask seq)
      = Inr (mk3 (B, L, L) (\<lambda>i j k.
          at3 (get_pad_mask seq pad) (bidx B i) (bidx 1 j) (bidx L k)
          \<and> at3 (get_subsequent_mask seq) (bidx 1 i) (bidx L j) (bidx L k)))"
    unfolding and_tensor_def
    by (rule broadcast3_Inr [where ?b0.0 = 1 and ?a1.0 = 1])
       (simp_all add: size3_get_pad_mask [OF assms(2)] get_subsequent_mask_mk3 [OF assms(2)]
          size3_mk3 broadcast_dim_same broadcast_dim_one_right broadcast_dim_one_left)
  also have "mk3 (B, L, L) (\<lambda>i j k.
          at3 (get_pad_mask seq pad) (bidx B i) (bidx 1 j) (bidx L k)
          \<and> at3 (get_subsequent_mask seq) (bidx 1 i) (bidx L j) (bidx L k))
      = mk3 (B, L, L) (\<lambda>b i j. at2 seq b j \<noteq> pad \<and> j \<le> i)"
    by (rule mk3_cong)
       (simp add: bidx_lt bidx_1 at3_get_pad_mask [OF assms] get_subsequent_mask_mk3 [OF assms(2)]
          at3_mk3)
  finally show ?thesis .
qed

section \<open>The positional encoding table\<close>

lemma length_assign_stride2: "length (assign_stride2 s f T) = length T"
  by (simp add: assign_stride2_def)

lemma assign_stride2_nth:
  "p < length T \<Longrightarrow> c < length (T ! p) \<Longrightarrow>
   assign_stride2 s f T ! p ! c
     = (if s \<le> c \<and> (c - s) mod 2 = 0 then f (T ! p ! c) else T ! p ! c)"
  by (simp add: assign_stride2_def)

lemma assign_stride2_row_length:
  "p < length T \<Longrightarrow> length (assign_stride2 s f T ! p) = length (T ! p)"
  by (simp add: assign_stride2_def)

lemma angle_nth:
  "c < d \<Longrightarrow> get_position_angle_vec d pos ! c
     = real pos / (10000 powr (real (2 * (c div 2)) / real d))"
  by (simp add: get_position_angle_vec_def)

lemma length_angle: "length (get_position_angle_vec d pos) = d"
  by (simp add: get_position_angle_vec_def)

lemma table_Inr:
  "0 < n \<Longrightarrow> get_sinusoid_encoding_table n d
     = Inr (Tensor3 (1, n, d)
         [assign_stride2 1 cos (assign_stride2 0 sin (map (get_position_angle_vec d) [0..<n]))])"
  by (simp add: get_sinusoid_encoding_table_def)

lemma table_Inl: "get_sinusoid_encoding_table 0 d = Inl IndexError"
  by (simp add: get_sinusoid_encoding_table_def)

lemma table_entry:
  assumes "pos < n" "c < d"
  shows "assign_stride2 1 cos (assign_stride2 0 sin (map (get_position_angle_vec d) [0..<n])) ! pos ! c
       = (if even c then sin (real pos / (10000 powr (real (2 * (c div 2)) / real d)))
          else cos (real pos / (10000 powr (real (2 * (c div 2)) / real d))))"
proof -
  let ?A = "map (get_position_angle_vec d) [0..<n]"
  have a: "?A ! pos ! c = real pos / (10000 powr (real (2 * (c div 2)) / real d))"
    using assms by (simp add: angle_nth)
  have l: "pos < length ?A" "c < length (?A ! pos)"
    using assms by (simp_all add: length_angle)
  have s: "assign_stride2 0 sin ?A ! pos ! c = (if even c then sin (?A ! pos ! c) else ?A ! pos ! c)"
    using l by (simp add: assign_stride2_nth even_iff_mod_2_eq_zero)
  have l2: "pos < length (assign_stride2 0 sin ?A)" "c < length (assign_stride2 0 sin ?A ! pos)"
    using l by (simp_all add: length_assign_stride2 assign_stride2_row_length)
  have odd_c: "(1 \<le> c \<and> (c - 1) mod 2 = 0) = odd c"
    by presburger
  show ?thesis
    unfolding assign_stride2_nth [OF l2] odd_c s a by simp
qed

lemma table_wf:
  "wf3 (Tensor3 (1, n, d)
         [assign_stride2 1 cos (assign_stride2 0 sin (map (get_position_angle_vec d) [0..<n]))])"
  by (simp add: wf3_def assign_stride2_def list_all_iff length_angle)

lemma init_pe_Inr:
  "PositionalEncoding_init d n = Inr self \<Longrightarrow>
   0 < n \<and> pos_table self = Tensor3 (1, n, d)
         [assign_stride2 1 cos (assign_stride2 0 sin (map (get_position_angle_vec d) [0..<n]))]"
  by (cases "n = 0") (auto simp: PositionalEncoding_init_def table_Inl table_Inr)

lemma init_pe_size: "PositionalEncoding_init d n = Inr self \<Longrightarrow> size3 (pos_table self) = (1, n, d)"
  by (drule init_pe_Inr) simp

lemma init_pe_wf: "PositionalEncoding_init d n = Inr self \<Longrightarrow> wf3 (pos_table self)"
  by (drule init_pe_Inr) (simp only: table_wf)

lemma init_pe_pos: "PositionalEncoding_init d n = Inr self \<Longrightarrow> 0 < n"
  by (drule init_pe_Inr) simp

lemma init_pe_entry:
  "PositionalEncoding_init d n = Inr self \<Longrightarrow> pos < n \<Longrightarrow> c < d \<Longrightarrow>
   at3 (pos_table self) 0 pos c
     = (if even c then sin (real pos / (10000 powr (real (2 * (c div 2)) / real d)))
        else cos (real pos / (10000 powr (real (2 * (c div 2)) / real d))))"
proof -
  assume a: "PositionalEncoding_init d n = Inr self" "pos < n" "c < d"
  let ?T = "assign_stride2 1 cos (assign_stride2 0 sin (map (get_position_angle_vec d) [0..<n]))"
  have "at3 (pos_table self) 0 pos c = ?T ! pos ! c"
    using init_pe_Inr [OF a(1)] by (simp add: at3_def)
  then show ?thesis
    by (simp only: table_entry [OF a(2,3)])
qed

text \<open>
  Claim C6. The constructor of \<open>PositionalEncoding\<close> with embedding dimension \<open>d\<close> and
  \<open>n_pos\<close> positions builds the table once, as the value of the field \<open>pos_table\<close>:
  it has shape \<open>(1, n_pos, d)\<close>, and for every position \<open>pos < n_pos\<close> and every
  \<open>i\<close> with \<open>2 i + 1 < d\<close> its entry at column \<open>2 i\<close> is
  \<open>sin (pos / 10000 ^ (2 i / d))\<close> and its entry at column \<open>2 i + 1\<close> is
  \<open>cos (pos / 10000 ^ (2 i / d))\<close>. Floats are idealised as reals. A table is built
  when there is at least one position; with \<open>n_pos = 0\<close> the constructor raises.
\<close>

theorem sinusoid_table_correct:
  assumes "0 < n_pos"
  shows "\<exists>self. PositionalEncoding_init d n_pos = Inr self
           \<and> get_sinusoid_encoding_table n_pos d = Inr (pos_table self)
           \<and> size3 (pos_table self) = (1, n_pos, d)
           \<and> wf3 (pos_table self)
           \<and> (\<forall>pos i. pos < n_pos \<and> 2 * i + 1 < d \<longrightarrow>
                 at3 (pos_table self) 0 pos (2 * i)
                   = sin (real pos / (10000 powr (real (2 * i) / real d)))
               \<and> at3 (pos_table self) 0 pos (2 * i + 1)
                   = cos (real pos / (10000 powr (real (2 * i) / real d))))"
proof -
  obtain t where t: "get_sinusoid_encoding_table n_pos d = Inr t"
    using assms by (simp add: table_Inr)
  then have i: "PositionalEncoding_init d n_pos = Inr \<lparr>pos_table = t\<rparr>"
    by (simp add: PositionalEncoding_init_def)
  have "at3 t 0 pos (2 * i) = sin (real pos / (10000 powr (real (2 * i) / real d)))
      \<and> at3 t 0 pos (2 * i + 1) = cos (real pos / (10000 powr (real (2 * i) / real d)))"
    if "pos < n_pos" "2 * i + 1 < d" for pos i
    using init_pe_entry [OF i, of pos "2 * i"] init_pe_entry [OF i, of pos "2 * i + 1"] that
    by simp
  then show ?thesis
    using t i init_pe_size [OF i] init_pe_wf [OF i] by auto
qed

theorem sinusoid_table_correct_witness:
  "0 < (1::nat)
   \<and> PositionalEncoding_init 2 1 = Inr \<lparr>pos_table = Tensor3 (1, 1, 2) [[[0, 1]]]\<rparr>
   \<and> at3 (Tensor3 (1, 1, 2) [[[0, 1]]]) 0 0 0 = sin (real 0 / (10000 powr (real 0 / real 2)))
   \<and> at3 (Tensor3 (1, 1, 2) [[[0, 1]]]) 0 0 1 = cos (real 0 / (10000 powr (real 0 / real 2)))"
  using sinusoid_table_correct [of 1 2]
  by (simp add: PositionalEncoding_init_def get_sinusoid_encoding_table_def
        get_position_angle_vec_def assign_stride2_def upt_rec at3_def)

section \<open>Adding the positional encoding\<close>

lemma size3_slice_dim1: "size3 t = (a, b, c) \<Longrightarrow> size3 (slice_dim1 t n) = (a, min n b, c)"
  by (simp add: slice_dim1_def)

lemma at3_slice_dim1:
  "wf3 t \<Longrightarrow> size3 t = (a, b, c) \<Longrightarrow> i < a \<Longrightarrow> j < n \<Longrightarrow>
   at3 (slice_dim1 t n) i j k = at3 t i j k"
  by (simp add: slice_dim1_def at3_def wf3_def)

lemma pe_forward_le:
  assumes "wf3 (pos_table self)" "size3 (pos_table self) = (Suc 0, n, d)"
    and "size3 x = (B, L, d)" "L \<le> n"
  shows "PositionalEncoding_forward self x
       = Inr (mk3 (B, L, d) (\<lambda>b t k. at3 x b t k + at3 (pos_table self) 0 t k))"
proof -
  have s: "size3 (slice_dim1 (pos_table self) L) = (Suc 0, L, d)"
    using size3_slice_dim1 [OF assms(2), of L] assms(4) by (simp add: min_def)
  have "PositionalEncoding_forward self x
      = Inr (mk3 (B, L, d) (\<lambda>i j k.
          at3 x (bidx B i) (bidx L j) (bidx d k)
          + at3 (slice_dim1 (pos_table self) L) (bidx (Suc 0) i) (bidx L j) (bidx d k)))"
    unfolding PositionalEncoding_forward_def add_tensor_def assms(3) prod.case
    by (rule broadcast3_Inr [OF assms(3) s])
       (simp_all add: broadcast_dim_same broadcast_dim_one_right)
  also have "mk3 (B, L, d) (\<lambda>i j k.
          at3 x (bidx B i) (bidx L j) (bidx d k)
          + at3 (slice_dim1 (pos_table self) L) (bidx (Suc 0) i) (bidx L j) (bidx d k))
      = mk3 (B, L, d) (\<lambda>b t k. at3 x b t k + at3 (pos_table self) 0 t k)"
    by (rule mk3_cong) (simp add: bidx_lt bidx_1 at3_slice_dim1 [OF assms(1,2)])
  finally show ?thesis .
qed

lemma pe_forward_one:
  assumes "wf3 (pos_table self)" "size3 (pos_table self) = (Suc 0, Suc 0, d)"
    and "size3 x = (B, L, d)" "Suc 0 < L"
  shows "PositionalEncoding_forward self x
       = Inr (mk3 (B, L, d) (\<lambda>b t k. at3 x b t k + at3 (pos_table self) 0 0 k))"
proof -
  have s: "size3 (slice_dim1 (pos_table self) L) = (Suc 0, Suc 0, d)"
    using size3_slice_dim1 [OF assms(2), of L] assms(4) by (simp add: min_def)
  have "PositionalEncoding_forward self x
      = Inr (mk3 (B, L, d) (\<lambda>i j k.
          at3 x (bidx B i) (bidx L j) (bidx d k)
          + at3 (slice_dim1 (pos_table self) L) (bidx (Suc 0) i) (bidx (Suc 0) j) (bidx d k)))"
    unfolding PositionalEncoding_forward_def add_tensor_def assms(3) prod.case
    by (rule broadcast3_Inr [OF assms(3) s])
       (simp_all add: broadcast_dim_same broadcast_dim_one_right)
  also have "mk3 (B, L, d) (\<lambda>i j k.
          at3 x (bidx B i) (bidx L j) (bidx d k)
          + at3 (slice_dim1 (pos_table self) L) (bidx (Suc 0) i) (bidx (Suc 0) j) (bidx d k))
      = mk3 (B, L, d) (\<lambda>b t k. at3 x b t k + at3 (pos_table self) 0 0 k)"
    using assms(4)
    by (intro mk3_cong) (simp add: bidx_lt bidx_1 at3_slice_dim1 [OF assms(1,2)])
  finally show ?thesis .
qed

lemma pe_forward_err:
  assumes "size3 (pos_table self) = (Suc 0, n, d)"
    and "size3 x = (B, L, d)" "n < L" "Suc 0 < n"
  shows "PositionalEncoding_forward self x = Inl RuntimeError"
proof -
  have s: "size3 (slice_dim1 (pos_table self) L) = (Suc 0, n, d)"
    using size3_slice_dim1 [OF assms(1), of L] assms(3) by (simp add: min_def)
  have "broadcast_dim L n = None"
    using assms(3,4) by (simp add: broadcast_dim_def)
  then show ?thesis
    unfolding PositionalEncoding_forward_def add_tensor_def assms(2) prod.case
    by (simp add: broadcast3_def s assms(2) broadcast_dim_one_right)
qed

text \<open>
  Claim C7, amended. For an input \<open>x\<close> of shape \<open>(B, L, d)\<close> with \<open>L \<le> n_pos\<close> the
  positional encoder returns \<open>x + table[:, :L]\<close>. For \<open>L > n_pos\<close> it raises the
  RuntimeError of a failed broadcast when \<open>n_pos \<noteq> 1\<close>; when \<open>n_pos = 1\<close> the single
  row of the table is broadcast, the row of position 0 is added at every position and no
  error is raised. The table is never read at a wrapped index.
\<close>

theorem PositionalEncoding_forward_cases:
  assumes "PositionalEncoding_init d n_pos = Inr self"
    and "wf3 x" and "size3 x = (B, L, d)"
  shows "(L \<le> n_pos \<longrightarrow>
            (\<exists>y. PositionalEncoding_forward self x = Inr y \<and> size3 y = (B, L, d) \<and> wf3 y
               \<and> (\<forall>b t k. b < B \<and> t < L \<and> k < d \<longrightarrow>
                     at3 y b t k = at3 x b t k + at3 (pos_table self) 0 t k)))
       \<and> (n_pos < L \<and> n_pos \<noteq> 1 \<longrightarrow>
            PositionalEncoding_forward self x = Inl RuntimeError)
       \<and> (n_pos < L \<and> n_pos = 1 \<longrightarrow>
            (\<exists>y. PositionalEncoding_forward self x = Inr y \<and> size3 y = (B, L, d) \<and> wf3 y
               \<and> (\<forall>b t k. b < B \<and> t < L \<and> k < d \<longrightarrow>
                     at3 y b t k = at3 x b t k + at3 (pos_table self) 0 0 k)))"
proof -
  have sz: "size3 (pos_table self) = (Suc 0, n_pos, d)"
    using init_pe_size [OF assms(1)] by simp
  have wf: "wf3 (pos_table self)"
    by (rule init_pe_wf [OF assms(1)])
  have pos: "0 < n_pos"
    by (rule init_pe_pos [OF assms(1)])
  show ?thesis
  proof (intro conjI impI)
    assume "L \<le> n_pos"
    then show "\<exists>y. PositionalEncoding_forward self x = Inr y \<and> size3 y = (B, L, d) \<and> wf3 y
               \<and> (\<forall>b t k. b < B \<and> t < L \<and> k < d \<longrightarrow>
                     at3 y b t k = at3 x b t k + at3 (pos_table self) 0 t k)"
      by (simp add: pe_forward_le [OF wf sz assms(3)] size3_mk3 wf3_mk3 at3_mk3)
  next
    assume "n_pos < L \<and> n_pos \<noteq> 1"
    then show "PositionalEncoding_forward self x = Inl RuntimeError"
      using pos by (intro pe_forward_err [OF sz assms(3)]) simp_all
  next
    assume a: "n_pos < L \<and> n_pos = 1"
    then have sz1: "size3 (pos_table self) = (Suc 0, Suc 0, d)" and "Suc 0 < L"
      using sz by simp_all
    then show "\<exists>y. PositionalEncoding_forward self x = Inr y \<and> size3 y = (B, L, d) \<and> wf3 y
               \<and> (\<forall>b t k. b < B \<and> t < L \<and> k < d \<longrightarrow>
                     at3 y b t k = at3 x b t k + at3 (pos_table self) 0 0 k)"
      by (simp add: pe_forward_one [OF wf sz1 assms(3)] size3_mk3 wf3_mk3 at3_mk3)
  qed
qed

lemma pe_example_init:
  "PositionalEncoding_init 2 1 = Inr \<lparr>pos_table = Tensor3 (1, 1, 2) [[[0, 1]]]\<rparr>"
  by (simp add: PositionalEncoding_init_def get_sinusoid_encoding_table_def
        get_position_angle_vec_def assign_stride2_def upt_rec)

lemma pe_example_wf: "wf3 (Tensor3 (1, 2, 2) [[[5, 5], [7, 7::real]]])"
  by (simp add: wf3_def)

theorem PositionalEncoding_forward_cases_witness:
  "PositionalEncoding_init 2 1 = Inr \<lparr>pos_table = Tensor3 (1, 1, 2) [[[0, 1]]]\<rparr>
   \<and> wf3 (Tensor3 (1, 2, 2) [[[5, 5], [7, 7::real]]])
   \<and> (\<exists>y. PositionalEncoding_forward \<lparr>pos_table = Tensor3 (1, 1, 2) [[[0, 1]]]\<rparr>
             (Tensor3 (1, 1, 2) [[[5, 5]]]) = Inr y \<and> size3 y = (1, 1, 2))
   \<and> (\<exists>y. PositionalEncoding_forward \<lparr>pos_table = Tensor3 (1, 1, 2) [[[0, 1]]]\<rparr>
             (Tensor3 (1, 2, 2) [[[5, 5], [7, 7]]]) = Inr y \<and> size3 y = (1, 2, 2))"
  using PositionalEncoding_forward_cases [OF pe_example_init pe_example_wf, of 1 2]
    PositionalEncoding_forward_cases [OF pe_example_init, of "Tensor3 (1, 1, 2) [[[5, 5]]]" 1 1]
    pe_example_init
  by (auto simp: wf3_def)

text \<open>
  The claim C7 as it is written fails: with one position in the table and an input of
  length 2 no error is raised, and position 1 receives the encoding of position 0.
\<close>

theorem PositionalEncoding_forward_counterexample:
  "PositionalEncoding_init 2 1 = Inr \<lparr>pos_table = Tensor3 (1, 1, 2) [[[0, 1]]]\<rparr>
   \<and> PositionalEncoding_forward \<lparr>pos_table = Tensor3 (1, 1, 2) [[[0, 1]]]\<rparr>
        (Tensor3 (1, 2, 2) [[[5, 5], [7, 7]]])
     = Inr (Tensor3 (1, 2, 2) [[[5, 6], [7, 8]]])"
  using pe_example_init
  by (simp add: PositionalEncoding_forward_def add_tensor_def slice_dim1_def
        broadcast3_def broadcast_dim_def mk3_def bidx_def at3_def upt_rec)

section \<open>The constructors\<close>

lemma Embedding_init_Inr_iff:
  "(\<exists>emb. Embedding_init n d pad a = Inr emb) = (- int n \<le> pad \<and> pad < int n)"
  by (auto simp: Embedding_init_def Let_def)

lemma Embedding_init_fields:
  "Embedding_init n d pad a = Inr emb \<Longrightarrow>
   num_embeddings emb = n \<and> embedding_dim emb = d \<and> emb_weight emb = a
   \<and> padding_idx emb = (if pad < 0 then int n + pad else pad)"
  by (auto simp: Embedding_init_def Let_def split: if_splits)

lemma PositionalEncoding_init_Inr_iff:
  "(\<exists>pe. PositionalEncoding_init d n = Inr pe) = (0 < n)"
  by (cases "n = 0") (auto simp: PositionalEncoding_init_def table_Inl table_Inr)

lemma Dropout_init_Inr_iff:
  "(\<exists>dr. Dropout_init lib p = Inr dr) = (0 \<le> p \<and> p \<le> 1)"
  by (auto simp: Dropout_init_def)

lemma Encoder_init_Inr_iff:
  "(\<exists>enc. Encoder_init lib a nv dw nl nh dk dv dm di pad p np sc = Inr enc)
     = (- int nv \<le> pad \<and> pad < int nv \<and> 0 < np \<and> 0 \<le> p \<and> p \<le> 1)"
  using Embedding_init_Inr_iff [of nv dw pad a] PositionalEncoding_init_Inr_iff [of dw np]
    Dropout_init_Inr_iff [of lib p]
  by (auto simp: Encoder_init_def split: sum.splits)

lemma Decoder_init_Inr_iff:
  "(\<exists>dec. Decoder_init lib a nv dw nl nh dk dv dm di pad np p sc = Inr dec)
     = (- int nv \<le> pad \<and> pad < int nv \<and> 0 < np \<and> 0 \<le> p \<and> p \<le> 1)"
  using Embedding_init_Inr_iff [of nv dw pad a] PositionalEncoding_init_Inr_iff [of dw np]
    Dropout_init_Inr_iff [of lib p]
  by (auto simp: Decoder_init_def split: sum.splits)

lemma Encoder_init_fields:
  "Encoder_init lib a nv dw nl nh dk dv dm di pad p np sc = Inr enc \<Longrightarrow>
   emb_weight (src_word_emb enc) = a \<and> num_embeddings (src_word_emb enc) = nv
   \<and> embedding_dim (src_word_emb enc) = dw
   \<and> padding_idx (src_word_emb enc) = (if pad < 0 then int nv + pad else pad)
   \<and> PositionalEncoding_init dw np = Inr (enc_position_enc enc)
   \<and> enc_dropout enc = new_Dropout lib p
   \<and> enc_layer_stack enc = map (\<lambda>k. new_EncoderLayer lib k dm di nh dk dv p) [0..<nl]
   \<and> enc_layer_norm enc = new_LayerNorm lib dm
   \<and> enc_scale_emb enc = sc \<and> enc_d_model enc = dm"
  by (auto simp: Encoder_init_def Dropout_init_def split: sum.splits if_splits
        dest: Embedding_init_fields)

lemma Decoder_init_fields:
  "Decoder_init lib a nv dw nl nh dk dv dm di pad np p sc = Inr dec \<Longrightarrow>
   emb_weight (trg_word_emb dec) = a \<and> num_embeddings (trg_word_emb dec) = nv
   \<and> embedding_dim (trg_word_emb dec) = dw
   \<and> padding_idx (trg_word_emb dec) = (if pad < 0 then int nv + pad else pad)
   \<and> PositionalEncoding_init dw np = Inr (dec_position_enc dec)
   \<and> dec_dropout dec = new_Dropout lib p
   \<and> dec_layer_stack dec = map (\<lambda>k. new_DecoderLayer lib k dm di nh dk dv p) [0..<nl]
   \<and> dec_layer_norm dec = new_LayerNorm lib dm
   \<and> dec_scale_emb dec = sc \<and> dec_d_model dec = dm"
  by (auto simp: Decoder_init_def Dropout_init_def split: sum.splits if_splits
        dest: Embedding_init_fields)

lemma Transformer_init_succeeds_iff:
  "(\<exists>self st. Transformer_init lib c = Inr (self, st)) = accepted_args c"
proof -
  let ?se = "if trg_emb_prj_weight_sharing c then scale_emb_or_prj c = ''emb'' else False"
  have e: "(\<exists>enc. Encoder_init lib 0 (n_src_vocab c) (d_word_vec c) (n_layers c) (n_head c) (d_k c)
                (d_v c) (d_model c) (d_inner c) (src_pad_idx c) (dropout c) (n_position c) ?se = Inr enc)
     = (- int (n_src_vocab c) \<le> src_pad_idx c \<and> src_pad_idx c < int (n_src_vocab c)
        \<and> 0 < n_position c \<and> 0 \<le> dropout c \<and> dropout c \<le> 1)"
    by (rule Encoder_init_Inr_iff)
  have d: "(\<exists>dec. Decoder_init lib 1 (n_trg_vocab c) (d_word_vec c) (n_layers c) (n_head c) (d_k c)
                (d_v c) (d_model c) (d_inner c) (trg_pad_idx c) (n_position c) (dropout c) ?se = Inr dec)
     = (- int (n_trg_vocab c) \<le> trg_pad_idx c \<and> trg_pad_idx c < int (n_trg_vocab c)
        \<and> 0 < n_position c \<and> 0 \<le> dropout c \<and> dropout c \<le> 1)"
    by (rule Decoder_init_Inr_iff)
  show ?thesis
  proof
    assume "\<exists>self st. Transformer_init lib c = Inr (self, st)"
    then show "accepted_args c"
      using e d
      by (auto simp: Transformer_init_def accepted_args_def Let_def
            split: if_splits sum.splits)
  next
    assume a: "accepted_args c"
    then obtain enc dec where
      "Encoder_init lib 0 (n_src_vocab c) (d_word_vec c) (n_layers c) (n_head c) (d_k c)
                (d_v c) (d_model c) (d_inner c) (src_pad_idx c) (dropout c) (n_position c) ?se = Inr enc"
      "Decoder_init lib 1 (n_trg_vocab c) (d_word_vec c) (n_layers c) (n_head c) (d_k c)
                (d_v c) (d_model c) (d_inner c) (trg_pad_idx c) (n_position c) (dropout c) ?se = Inr dec"
      using e d by (auto simp: accepted_args_def)
    then show "\<exists>self st. Transformer_init lib c = Inr (self, st)"
      using a by (simp add: Transformer_init_def accepted_args_def Let_def)
  qed
qed

lemma size2_mk2: "size2 (mk2 (m, n) f) = (m, n)"
  by (simp add: mk2_def)

lemma wf2_mk2: "wf2 (mk2 (m, n) f)"
  by (simp add: mk2_def wf2_def list_all_iff)

lemma new_store_0: "new_store lib c 0 = mk2 (n_src_vocab c, d_word_vec c) (xavier_uniform lib 0)"
  and new_store_1: "new_store lib c (Suc 0) = mk2 (n_trg_vocab c, d_word_vec c) (xavier_uniform lib 1)"
  and new_store_2: "new_store lib c 2 = mk2 (n_trg_vocab c, d_model c) (xavier_uniform lib 2)"
  by (simp_all add: new_store_def)

lemma Transformer_init_Inr:
  assumes "Transformer_init lib c = Inr (self, st)"
  obtains enc dec where
    "Encoder_init lib 0 (n_src_vocab c) (d_word_vec c) (n_layers c) (n_head c) (d_k c)
       (d_v c) (d_model c) (d_inner c) (src_pad_idx c) (dropout c) (n_position c)
       (trg_emb_prj_weight_sharing c \<and> scale_emb_or_prj c = ''emb'') = Inr enc"
    "Decoder_init lib 1 (n_trg_vocab c) (d_word_vec c) (n_layers c) (n_head c) (d_k c)
       (d_v c) (d_model c) (d_inner c) (trg_pad_idx c) (n_position c) (dropout c)
       (trg_emb_prj_weight_sharing c \<and> scale_emb_or_prj c = ''emb'') = Inr dec"
    "st = new_store lib c"
    "self = \<lparr>self_src_pad_idx = src_pad_idx c,
             self_trg_pad_idx = trg_pad_idx c,
             scale_prj = (trg_emb_prj_weight_sharing c \<and> scale_emb_or_prj c = ''prj''),
             self_d_model = d_model c,
             encoder = (if emb_src_trg_weight_sharing c
                        then enc\<lparr>src_word_emb :=
                               (src_word_emb enc)\<lparr>emb_weight := emb_weight (trg_word_emb dec)\<rparr>\<rparr>
                        else enc),
             decoder = dec,
             trg_word_prj = (if trg_emb_prj_weight_sharing c
                             then \<lparr>in_features = d_model c, out_features = n_trg_vocab c,
                                    lin_weight = emb_weight (trg_word_emb dec)\<rparr>
                             else \<lparr>in_features = d_model c, out_features = n_trg_vocab c,
                                    lin_weight = 2\<rparr>)\<rparr>"
proof -
  have s: "(if trg_emb_prj_weight_sharing c then scale_emb_or_prj c = x else False)
         = (trg_emb_prj_weight_sharing c \<and> scale_emb_or_prj c = x)" for x
    by simp
  from assms show ?thesis
    unfolding Transformer_init_def Let_def s
    by (simp split: if_splits sum.splits add: that)
qed

lemma Transformer_init_fields:
  assumes "Transformer_init lib c = Inr (self, st)"
  shows "st = new_store lib c"
    and "emb_weight (trg_word_emb (decoder self)) = 1"
    and "emb_weight (src_word_emb (encoder self)) = (if emb_src_trg_weight_sharing c then 1 else 0)"
    and "lin_weight (trg_word_prj self) = (if trg_emb_prj_weight_sharing c then 1 else 2)"
    and "num_embeddings (src_word_emb (encoder self)) = n_src_vocab c"
    and "num_embeddings (trg_word_emb (decoder self)) = n_trg_vocab c"
    and "enc_scale_emb (encoder self) = (trg_emb_prj_weight_sharing c \<and> scale_emb_or_prj c = ''emb'')"
    and "dec_scale_emb (decoder self) = (trg_emb_prj_weight_sharing c \<and> scale_emb_or_prj c = ''emb'')"
    and "scale_prj self = (trg_emb_prj_weight_sharing c \<and> scale_emb_or_prj c = ''prj'')"
    and "enc_d_model (encoder self) = d_model c"
    and "dec_d_model (decoder self) = d_model c"
    and "self_d_model self = d_model c"
    and "self_src_pad_idx self = src_pad_idx c"
    and "self_trg_pad_idx self = trg_pad_idx c"
    and "PositionalEncoding_init (d_word_vec c) (n_position c) = Inr (enc_position_enc (encoder self))"
    and "PositionalEncoding_init (d_word_vec c) (n_position c) = Inr (dec_position_enc (decoder self))"
    and "enc_dropout (encoder self) = new_Dropout lib (dropout c)"
    and "dec_dropout (decoder self) = new_Dropout lib (dropout c)"
    and "enc_layer_norm (encoder self) = new_LayerNorm lib (d_model c)"
    and "dec_layer_norm (decoder self) = new_LayerNorm lib (d_model c)"
    and "enc_layer_stack (encoder self)
           = map (\<lambda>k. new_EncoderLayer lib k (d_model c) (d_inner c) (n_head c) (d_k c) (d_v c) (dropout c))
               [0..<n_layers c]"
    and "dec_layer_stack (decoder self)
           = map (\<lambda>k. new_DecoderLayer lib k (d_model c) (d_inner c) (n_head c) (d_k c) (d_v c) (dropout c))
               [0..<n_layers c]"
    and "padding_idx (src_word_emb (encoder self))
           = (if src_pad_idx c < 0 then int (n_src_vocab c) + src_pad_idx c else src_pad_idx c)"
    and "padding_idx (trg_word_emb (decoder self))
           = (if trg_pad_idx c < 0 then int (n_trg_vocab c) + trg_pad_idx c else trg_pad_idx c)"
proof -
  from assms obtain enc dec where i:
    "Encoder_init lib 0 (n_src_vocab c) (d_word_vec c) (n_layers c) (n_head c) (d_k c)
       (d_v c) (d_model c) (d_inner c) (src_pad_idx c) (dropout c) (n_position c)
       (trg_emb_prj_weight_sharing c \<and> scale_emb_or_prj c = ''emb'') = Inr enc"
    "Decoder_init lib 1 (n_trg_vocab c) (d_word_vec c) (n_layers c) (n_head c) (d_k c)
       (d_v c) (d_model c) (d_inner c) (trg_pad_idx c) (n_position c) (dropout c)
       (trg_emb_prj_weight_sharing c \<and> scale_emb_or_prj c = ''emb'') = Inr dec"
    and st: "st = new_store lib c"
    and self: "self = \<lparr>self_src_pad_idx = src_pad_idx c,
             self_trg_pad_idx = trg_pad_idx c,
             scale_prj = (trg_emb_prj_weight_sharing c \<and> scale_emb_or_prj c = ''prj''),
             self_d_model = d_model c,
             encoder = (if emb_src_trg_weight_sharing c
                        then enc\<lparr>src_word_emb :=
                               (src_word_emb enc)\<lparr>emb_weight := emb_weight (trg_word_emb dec)\<rparr>\<rparr>
                        else enc),
             decoder = dec,
             trg_word_prj = (if trg_emb_prj_weight_sharing c
                             then \<lparr>in_features = d_model c, out_features = n_trg_vocab c,
                                    lin_weight = emb_weight (trg_word_emb dec)\<rparr>
                             else \<lparr>in_features = d_model c, out_features = n_trg_vocab c,
                                    lin_weight = 2\<rparr>)\<rparr>"
    by (rule Transformer_init_Inr)
  note e = Encoder_init_fields [OF i(1)]
  note d = Decoder_init_fields [OF i(2)]
  show "st = new_store lib c" by (rule st)
  show "emb_weight (trg_word_emb (decoder self)) = 1" using d by (simp add: self)
  show "emb_weight (src_word_emb (encoder self)) = (if emb_src_trg_weight_sharing c then 1 else 0)"
    using e d by (simp add: self)
  show "lin_weight (trg_word_prj self) = (if trg_emb_prj_weight_sharing c then 1 else 2)"
    using d by (simp add: self)
  show "num_embeddings (src_word_emb (encoder self)) = n_src_vocab c" using e by (simp add: self)
  show "num_embeddings (trg_word_emb (decoder self)) = n_trg_vocab c" using d by (simp add: self)
  show "enc_scale_emb (encoder self) = (trg_emb_prj_weight_sharing c \<and> scale_emb_or_prj c = ''emb'')"
    using e by (simp add: self)
  show "dec_scale_emb (decoder self) = (trg_emb_prj_weight_sharing c \<and> scale_emb_or_prj c = ''emb'')"
    using d by (simp add: self)
  show "scale_prj self = (trg_emb_prj_weight_sharing c \<and> scale_emb_or_prj c = ''prj'')"
    by (simp add: self)
  show "enc_d_model (encoder self) = d_model c" using e by (simp add: self)
  show "dec_d_model (decoder self) = d_model c" using d by (simp add: self)
  show "self_d_model self = d_model c" by (simp add: self)
  show "self_src_pad_idx self = src_pad_idx c" by (simp add: self)
  show "self_trg_pad_idx self = trg_pad_idx c" by (simp add: self)
  show "PositionalEncoding_init (d_word_vec c) (n_position c) = Inr (enc_position_enc (encoder self))"
    using e by (simp add: self)
  show "PositionalEncoding_init (d_word_vec c) (n_position c) = Inr (dec_position_enc (decoder self))"
    using d by (simp add: self)
  show "enc_dropout (encoder self) = new_Dropout lib (dropout c)" using e by (simp add: self)
  show "dec_dropout (decoder self) = new_Dropout lib (dropout c)" using d by (simp add: self)
  show "enc_layer_norm (encoder self) = new_LayerNorm lib (d_model c)" using e by (simp add: self)
  show "dec_layer_norm (decoder self) = new_LayerNorm lib (d_model c)" using d by (simp add: self)
  show "enc_layer_stack (encoder self)
           = map (\<lambda>k. new_EncoderLayer lib k (d_model c) (d_inner c) (n_head c) (d_k c) (d_v c) (dropout c))
               [0..<n_layers c]"
    using e by (simp add: self)
  show "dec_layer_stack (decoder self)
           = map (\<lambda>k. new_DecoderLayer lib k (d_model c) (d_inner c) (n_head c) (d_k c) (d_v c) (dropout c))
               [0..<n_layers c]"
    using d by (simp add: self)
  show "padding_idx (src_word_emb (encoder self))
           = (if src_pad_idx c < 0 then int (n_src_vocab c) + src_pad_idx c else src_pad_idx c)"
    using e by (simp add: self)
  show "padding_idx (trg_word_emb (decoder self))
           = (if trg_pad_idx c < 0 then int (n_trg_vocab c) + trg_pad_idx c else trg_pad_idx c)"
    using d by (simp add: self)
qed

lemma Transformer_init_accepted:
  "Transformer_init lib c = Inr (self, st) \<Longrightarrow> accepted_args c"
  using Transformer_init_succeeds_iff [of lib c] by blast

section \<open>The forward passes as pipelines\<close>

lemma enc_stack_spec:
  "enc_stack layers src_mask ra (x, acc, g)
     = (case spec_encoder_blocks layers src_mask g x of
          (y, attns, g') \<Rightarrow> (y, acc @ (if ra then attns else []), g'))"
  by (induction layers arbitrary: x acc g) (auto split: prod.splits)

lemma dec_stack_spec:
  "dec_stack layers enc_output trg_mask src_mask ra (x, acc1, acc2, g)
     = (case spec_decoder_blocks layers enc_output trg_mask src_mask g x of
          (y, attns1, attns2, g') \<Rightarrow>
            (y, acc1 @ (if ra then attns1 else []), acc2 @ (if ra then attns2 else []), g'))"
  by (induction layers arbitrary: x acc1 acc2 g) (auto split: prod.splits)

lemma spec_encoder_blocks_length:
  "spec_encoder_blocks layers src_mask g x = (y, attns, g') \<Longrightarrow> length attns = length layers"
  by (induction layers arbitrary: x g y attns g') (auto split: prod.splits)

lemma spec_decoder_blocks_length:
  "spec_decoder_blocks layers e tm sm g x = (y, attns1, attns2, g') \<Longrightarrow>
   length attns1 = length layers \<and> length attns2 = length layers"
  by (induction layers arbitrary: x g y attns1 attns2 g') (auto split: prod.splits)

lemma py_pow_half: "py_pow d (1 / 2) = Inr (sqrt (real d))"
  by (simp add: py_pow_def powr_half_sqrt)

lemma py_pow_neg_half:
  "py_pow d (- (1 / 2)) = (if d = 0 then Inl ZeroDivisionError else Inr (real d powr (- (1 / 2))))"
  by (simp add: py_pow_def)

lemma scale_by_sqrt_eq:
  "scale_by_sqrt flag d x = Inr (if flag then tmap3 (\<lambda>v. v * sqrt (real d)) x else x)"
  by (simp add: scale_by_sqrt_def py_pow_half mul_scalar_def)

lemma Encoder_forward_spec:
  "Encoder_forward self w src_seq src_mask ra =
     (case Embedding_forward (params w) (src_word_emb self) src_seq of Inl e \<Rightarrow> Inl e
      | Inr emb \<Rightarrow>
     (case PositionalEncoding_forward (enc_position_enc self)
             (if enc_scale_emb self
              then tmap3 (\<lambda>v. v * sqrt (real (enc_d_model self))) emb else emb) of
        Inl e \<Rightarrow> Inl e
      | Inr x \<Rightarrow>
     (case enc_dropout self (rng w) x of (x, g) \<Rightarrow>
     (case spec_encoder_blocks (enc_layer_stack self) src_mask g (enc_layer_norm self x) of
        (y, attns, g') \<Rightarrow>
          Inr (if ra then EncOutAttns y attns else EncOut y, w\<lparr>rng := g'\<rparr>)))))"
  unfolding Encoder_forward_def scale_by_sqrt_eq enc_stack_spec
  by (simp split: sum.splits prod.splits)

lemma Decoder_forward_spec:
  "Decoder_forward self w trg_seq trg_mask enc_output src_mask ra =
     (case Embedding_forward (params w) (trg_word_emb self) trg_seq of Inl e \<Rightarrow> Inl e
      | Inr emb \<Rightarrow>
     (case PositionalEncoding_forward (dec_position_enc self)
             (if dec_scale_emb self
              then tmap3 (\<lambda>v. v * sqrt (real (dec_d_model self))) emb else emb) of
        Inl e \<Rightarrow> Inl e
      | Inr x \<Rightarrow>
     (case dec_dropout self (rng w) x of (x, g) \<Rightarrow>
     (case spec_decoder_blocks (dec_layer_stack self) enc_output trg_mask src_mask g
             (dec_layer_norm self x) of
        (y, slf_attns, enc_attns, g') \<Rightarrow>
          Inr (if ra then DecOutAttns y slf_attns enc_attns else DecOut y, w\<lparr>rng := g'\<rparr>)))))"
  unfolding Decoder_forward_def scale_by_sqrt_eq dec_stack_spec
  by (simp split: sum.splits prod.splits)

lemma seq_logit_spec:
  assumes "wf2 trg_seq" and "size2 trg_seq = (B, L)"
  shows "seq_logit self w src_seq trg_seq =
     (case Encoder_forward (encoder self) w src_seq
             (get_pad_mask src_seq (self_src_pad_idx self)) False of Inl e \<Rightarrow> Inl e
      | Inr (enc_res, w1) \<Rightarrow>
     (case Decoder_forward (decoder self) w1 trg_seq
             (mk3 (B, L, L) (\<lambda>b i j. at2 trg_seq b j \<noteq> self_trg_pad_idx self \<and> j \<le> i))
             (enc_primary enc_res) (get_pad_mask src_seq (self_src_pad_idx self)) False of
        Inl e \<Rightarrow> Inl e
      | Inr (dec_res, w2) \<Rightarrow>
     (case Linear_forward (params w2) (trg_word_prj self) (dec_primary dec_res) of
        Inl e \<Rightarrow> Inl e
      | Inr logit \<Rightarrow>
          if scale_prj self
          then (if self_d_model self = 0 then Inl ZeroDivisionError
                else Inr (tmap3 (\<lambda>v. v * real (self_d_model self) powr (- (1 / 2))) logit, w2))
          else Inr (logit, w2))))"
  unfolding seq_logit_def Let_def target_mask_mk3 [OF assms] py_pow_neg_half mul_scalar_def
  by (simp split: sum.splits prod.splits)

lemma Encoder_forward_params:
  "Encoder_forward self w src_seq src_mask ra = Inr (r, w') \<Longrightarrow> params w' = params w"
  by (auto simp: Encoder_forward_def split: sum.splits prod.splits)

lemma Decoder_forward_params:
  "Decoder_forward self w trg_seq trg_mask enc_output src_mask ra = Inr (r, w') \<Longrightarrow>
   params w' = params w"
  by (auto simp: Decoder_forward_def split: sum.splits prod.splits)

lemma seq_logit_params:
  "seq_logit self w src_seq trg_seq = Inr (l, w') \<Longrightarrow> params w' = params w"
  by (auto simp: seq_logit_def Let_def split: sum.splits prod.splits if_splits
        dest!: Encoder_forward_params Decoder_forward_params)

lemma Transformer_forward_params:
  "Transformer_forward self w src_seq trg_seq = Inr (out, w') \<Longrightarrow> params w' = params w"
  by (auto simp: Transformer_forward_def split: sum.splits prod.splits dest!: seq_logit_params)

lemma Transformer_forward_spec:
  "Transformer_forward self w src_seq trg_seq =
     (case and_tensor (get_pad_mask trg_seq (self_trg_pad_idx self))
             (get_subsequent_mask trg_seq) of Inl e \<Rightarrow> Inl e
      | Inr trg_mask \<Rightarrow>
     (case Encoder_forward (encoder self) w src_seq
             (get_pad_mask src_seq (self_src_pad_idx self)) False of Inl e \<Rightarrow> Inl e
      | Inr (enc_res, w1) \<Rightarrow>
     (case Decoder_forward (decoder self) w1 trg_seq trg_mask (enc_primary enc_res)
             (get_pad_mask src_seq (self_src_pad_idx self)) False of Inl e \<Rightarrow> Inl e
      | Inr (dec_res, w2) \<Rightarrow>
     (case Linear_forward (params w2) (trg_word_prj self) (dec_primary dec_res) of
        Inl e \<Rightarrow> Inl e
      | Inr logit \<Rightarrow>
          if scale_prj self
          then (if self_d_model self = 0 then Inl ZeroDivisionError
                else (case view_rows
                             (tmap3 (\<lambda>v. v * real (self_d_model self) powr (- (1 / 2))) logit) of
                        Inl e \<Rightarrow> Inl e
                      | Inr out \<Rightarrow> Inr (out, w2)))
          else (case view_rows logit of Inl e \<Rightarrow> Inl e | Inr out \<Rightarrow> Inr (out, w2))))))"
  unfolding Transformer_forward_def seq_logit_def Let_def py_pow_neg_half mul_scalar_def
  by (simp split: sum.splits prod.splits)

section \<open>The small instance\<close>

lemma example_args_accepted: "accepted_args example_args"
  by (simp add: accepted_args_def example_args_def)

lemma example_init_ex: "\<exists>self st. Transformer_init example_library example_args = Inr (self, st)"
  using example_args_accepted Transformer_init_succeeds_iff [of example_library example_args]
  by blast

lemma upt2: "[0..<2] = [0, 1]"
  by (simp add: upt_rec)

lemma upt4: "[0..<4] = [0, 1, 2, 3]"
  by (simp add: upt_rec)

lemma example_store:
  "new_store example_library example_args (Suc 0)
     = Tensor2 (4, 2) [[1, 2], [2, 3], [3, 4], [4, 5]]"
  by (simp add: new_store_1 example_args_def example_library_def mk2_def upt2 upt4)

lemma example_pe_forward:
  assumes "PositionalEncoding_init 2 4 = Inr pe"
  shows "PositionalEncoding_forward pe (Tensor3 (1, 1, 2) [[[a, b]]])
       = Inr (Tensor3 (1, 1, 2) [[[a, b + 1]]])"
proof -
  have sz: "size3 (pos_table pe) = (Suc 0, 4, 2)"
    using init_pe_size [OF assms] by simp
  have e0: "at3 (pos_table pe) 0 0 0 = 0"
    using init_pe_entry [OF assms, of 0 0] by simp
  have e1: "at3 (pos_table pe) 0 0 (Suc 0) = 1"
    using init_pe_entry [OF assms, of 0 1] by simp
  have "PositionalEncoding_forward pe (Tensor3 (1, 1, 2) [[[a, b]]])
      = Inr (mk3 (1, 1, 2) (\<lambda>n t k. at3 (Tensor3 (1, 1, 2) [[[a, b]]]) n t k + at3 (pos_table pe) 0 t k))"
    by (rule pe_forward_le [OF init_pe_wf [OF assms] sz]) simp_all
  then show ?thesis
    by (simp add: mk3_def upt2 at3_def e0 [unfolded at3_def] e1 [unfolded at3_def])
qed

lemma example_blocks_enc:
  "spec_encoder_blocks
     (map (\<lambda>k. new_EncoderLayer example_library k dm di nh dk dv p) [0..<2]) m g x
   = (x, [0, 1], Suc (Suc g))"
  by (simp add: upt2 example_library_def)

lemma example_blocks_dec:
  "spec_decoder_blocks
     (map (\<lambda>k. new_DecoderLayer example_library k dm di nh dk dv p) [0..<2]) e tm sm g x
   = (x, [0, 1], [0, 1], Suc (Suc g))"
  by (simp add: upt2 example_library_def)

lemma example_Encoder_forward:
  assumes "Transformer_init example_library example_args = Inr (self, st)"
  shows "Encoder_forward (encoder self) \<lparr>params = st, rng = g\<rparr> (Tensor2 (1, 1) [[1]]) m ra
       = Inr (if ra then EncOutAttns (Tensor3 (1, 1, 2) [[[2, 4]]]) [0, 1]
              else EncOut (Tensor3 (1, 1, 2) [[[2, 4]]]),
              \<lparr>params = st, rng = Suc (Suc (Suc g))\<rparr>)"
proof -
  note f = Transformer_init_fields [OF assms]
  have pe: "PositionalEncoding_init 2 4 = Inr (enc_position_enc (encoder self))"
    using f(15) by (simp add: example_args_def)
  have emb: "Embedding_forward st (src_word_emb (encoder self)) (Tensor2 (1, 1) [[1]])
           = Inr (Tensor3 (1, 1, 2) [[[2, 3]]])"
  proof -
    have a: "emb_weight (src_word_emb (encoder self)) = Suc 0"
      using f(3) by (simp add: example_args_def)
    have p: "padding_idx (src_word_emb (encoder self)) = 0"
      using f(23) by (simp add: example_args_def)
    have t: "st (Suc 0) = Tensor2 (4, 2) [[1, 2], [2, 3], [3, 4], [4, 5]]"
      unfolding f(1) by (rule example_store)
    show ?thesis
      by (simp add: Embedding_forward_def a p t)
  qed
  have fl: "enc_scale_emb (encoder self) = False"
    using f(7) by (simp add: example_args_def)
  have ls: "enc_layer_stack (encoder self)
      = map (\<lambda>k. new_EncoderLayer example_library k 2 4 1 2 2 (1 / 10)) [0..<2]"
    using f(21) by (simp add: example_args_def)
  have dr: "enc_dropout (encoder self) = (\<lambda>g x. (x, Suc g))"
    using f(17) by (simp add: example_library_def)
  have nm: "enc_layer_norm (encoder self) = (\<lambda>x. x)"
    using f(19) by (simp add: example_library_def)
  show ?thesis
    using emb fl example_pe_forward [OF pe, of 2 3]
    by (simp add: Encoder_forward_spec dr nm ls example_blocks_enc)
qed

lemma example_Decoder_forward:
  assumes "Transformer_init example_library example_args = Inr (self, st)"
  shows "Decoder_forward (decoder self) \<lparr>params = st, rng = g\<rparr> (Tensor2 (1, 1) [[2]]) tm e sm ra
       = Inr (if ra then DecOutAttns (Tensor3 (1, 1, 2) [[[3, 5]]]) [0, 1] [0, 1]
              else DecOut (Tensor3 (1, 1, 2) [[[3, 5]]]),
              \<lparr>params = st, rng = Suc (Suc (Suc g))\<rparr>)"
proof -
  note f = Transformer_init_fields [OF assms]
  have pe: "PositionalEncoding_init 2 4 = Inr (dec_position_enc (decoder self))"
    using f(16) by (simp add: example_args_def)
  have emb: "Embedding_forward st (trg_word_emb (decoder self)) (Tensor2 (1, 1) [[2]])
           = Inr (Tensor3 (1, 1, 2) [[[3, 4]]])"
  proof -
    have a: "emb_weight (trg_word_emb (decoder self)) = Suc 0"
      using f(2) by simp
    have p: "padding_idx (trg_word_emb (decoder self)) = 0"
      using f(24) by (simp add: example_args_def)
    have t: "st (Suc 0) = Tensor2 (4, 2) [[1, 2], [2, 3], [3, 4], [4, 5]]"
      unfolding f(1) by (rule example_store)
    show ?thesis
      by (simp add: Embedding_forward_def a p t)
  qed
  have fl: "dec_scale_emb (decoder self) = False"
    using f(8) by (simp add: example_args_def)
  have ls: "dec_layer_stack (decoder self)
      = map (\<lambda>k. new_DecoderLayer example_library k 2 4 1 2 2 (1 / 10)) [0..<2]"
    using f(22) by (simp add: example_args_def)
  have dr: "dec_dropout (decoder self) = (\<lambda>g x. (x, Suc g))"
    using f(18) by (simp add: example_library_def)
  have nm: "dec_layer_norm (decoder self) = (\<lambda>x. x)"
    using f(20) by (simp add: example_library_def)
  show ?thesis
    using emb fl example_pe_forward [OF pe, of 3 4]
    by (simp add: Decoder_forward_spec dr nm ls example_blocks_dec)
qed

lemma example_Transformer_forward:
  assumes "Transformer_init example_library example_args = Inr (self, st)"
  shows "Transformer_forward self \<lparr>params = st, rng = g\<rparr> (Tensor2 (1, 1) [[1]]) (Tensor2 (1, 1) [[2]])
       = Inr (Tensor2 (1, 4)
                [[13 * 2 powr (- (1 / 2)), 21 * 2 powr (- (1 / 2)),
                  29 * 2 powr (- (1 / 2)), 37 * 2 powr (- (1 / 2))]],
              \<lparr>params = st, rng = g + 6\<rparr>)"
proof -
  note f = Transformer_init_fields [OF assms]
  have wf: "wf2 (Tensor2 (1, 1) [[2::int]])" "size2 (Tensor2 (1, 1) [[2::int]]) = (1, 1)"
    by (simp_all add: wf2_def)
  have a: "lin_weight (trg_word_prj self) = Suc 0"
    using f(4) by (simp add: example_args_def)
  have t: "st (Suc 0) = Tensor2 (4, 2) [[1, 2], [2, 3], [3, 4], [4, 5]]"
    unfolding f(1) by (rule example_store)
  have lin: "Linear_forward st (trg_word_prj self) (Tensor3 (1, 1, 2) [[[3, 5]]])
      = Inr (Tensor3 (1, 1, 4) [[[13, 21, 29, 37]]])"
    by (simp add: Linear_forward_def a t dot_def)
  have sp: "scale_prj self" "self_d_model self = 2"
    using f(9,12) by (simp_all add: example_args_def)
  have sl: "seq_logit self \<lparr>params = st, rng = g\<rparr> (Tensor2 (1, 1) [[1]]) (Tensor2 (1, 1) [[2]])
      = Inr (Tensor3 (1, 1, 4)
               [[[13 * 2 powr (- (1 / 2)), 21 * 2 powr (- (1 / 2)),
                  29 * 2 powr (- (1 / 2)), 37 * 2 powr (- (1 / 2))]]],
             \<lparr>params = st, rng = g + 6\<rparr>)"
    unfolding seq_logit_spec [OF wf]
    using lin sp
      example_Encoder_forward [OF assms, of g
        "get_pad_mask (Tensor2 (1, 1) [[1]]) (self_src_pad_idx self)" False]
      example_Decoder_forward [OF assms, of "Suc (Suc (Suc g))"
        "mk3 (1, 1, 1) (\<lambda>b i j. at2 (Tensor2 (1, 1) [[2]]) b j \<noteq> self_trg_pad_idx self \<and> j \<le> i)"
        "Tensor3 (1, 1, 2) [[[2, 4]]]"
        "get_pad_mask (Tensor2 (1, 1) [[1]]) (self_src_pad_idx self)" False]
    by (simp add: tmap3_def)
  show ?thesis
    unfolding Transformer_forward_def sl by (simp add: view_rows_def)
qed

section \<open>Shapes\<close>

lemma Embedding_forward_shape:
  assumes "wf2 (st (emb_weight self))" "size2 (st (emb_weight self)) = (n, d)"
    and "wf2 input" "size2 input = (B, L)"
    and "list_all (list_all (\<lambda>i. 0 \<le> i \<and> i < int n)) (data2 input)"
    and "0 \<le> padding_idx self" "padding_idx self < int n"
  shows "\<exists>y. Embedding_forward st self input = Inr y \<and> wf3 y \<and> size3 y = (B, L, d)"
proof -
  have row: "length (data2 (st (emb_weight self)) ! nat i) = d" if "0 \<le> i" "i < int n" for i
  proof -
    have "nat i < length (data2 (st (emb_weight self)))"
      using assms(1,2) that by (simp add: wf2_def) 
    then show ?thesis
      using assms(1,2) by (simp add: wf2_def list_all_length)
  qed
  show ?thesis
    using assms(3,4,5,6,7) row
    by (simp add: Embedding_forward_def assms(2) wf2_def wf3_def list_all_iff)
qed

lemma size3_tmap3: "size3 (tmap3 f t) = size3 t"
  by (simp add: tmap3_def)

lemma wf3_tmap3: "wf3 t \<Longrightarrow> wf3 (tmap3 f t)"
  by (simp add: tmap3_def wf3_def list_all_iff)

lemma scale_by_sqrt_shape:
  "wf3 x \<Longrightarrow> \<exists>y. scale_by_sqrt flag d x = Inr y \<and> wf3 y \<and> size3 y = size3 x"
  by (simp add: scale_by_sqrt_def py_pow_half mul_scalar_def size3_tmap3 wf3_tmap3)

lemma PositionalEncoding_forward_shape:
  assumes "PositionalEncoding_init d n = Inr self" "size3 x = (B, L, d)" "L \<le> n"
  shows "\<exists>y. PositionalEncoding_forward self x = Inr y \<and> wf3 y \<and> size3 y = (B, L, d)"
proof -
  have sz: "size3 (pos_table self) = (Suc 0, n, d)"
    using init_pe_size [OF assms(1)] by simp
  show ?thesis
    by (simp add: pe_forward_le [OF init_pe_wf [OF assms(1)] sz assms(2,3)] size3_mk3 wf3_mk3)
qed

lemma enc_stack_shape:
  assumes "\<forall>l \<in> set layers. \<forall>g x. wf3 x \<longrightarrow> keeps_shape x (fst (fst (l g x m)))"
    and "wf3 x"
  shows "keeps_shape x (fst (enc_stack layers m ra (x, acc, g)))"
  using assms
proof (induction layers arbitrary: x acc g)
  case Nil
  then show ?case by (simp add: keeps_shape_def)
next
  case (Cons l layers)
  obtain x' a g' where r: "l g x m = ((x', a), g')" by (metis prod.exhaust)
  have k: "keeps_shape x x'"
    using Cons.prems r by (metis fst_conv list.set_intros(1))
  then have "keeps_shape x' (fst (enc_stack layers m ra (x', acc @ (if ra then [a] else []), g')))"
    using Cons.IH [of x'] Cons.prems(1) by (simp add: keeps_shape_def)
  then show ?case
    using k r by (simp add: keeps_shape_def)
qed

lemma dec_stack_shape:
  assumes "\<forall>l \<in> set layers. \<forall>g x. wf3 x \<longrightarrow> keeps_shape x (fst (fst (l g x e tm sm)))"
    and "wf3 x"
  shows "keeps_shape x (fst (dec_stack layers e tm sm ra (x, acc1, acc2, g)))"
  using assms
proof (induction layers arbitrary: x acc1 acc2 g)
  case Nil
  then show ?case by (simp add: keeps_shape_def)
next
  case (Cons l layers)
  obtain x' a1 a2 g' where r: "l g x e tm sm = ((x', a1, a2), g')" by (metis prod.exhaust)
  have k: "keeps_shape x x'"
    using Cons.prems r by (metis fst_conv list.set_intros(1))
  then have "keeps_shape x' (fst (dec_stack layers e tm sm ra
      (x', acc1 @ (if ra then [a1] else []), acc2 @ (if ra then [a2] else []), g')))"
    using Cons.IH [of x'] Cons.prems(1) by (simp add: keeps_shape_def)
  then show ?case
    using k r by (simp add: keeps_shape_def)
qed

lemma Encoder_forward_shape:
  assumes "wf2 (params w (emb_weight (src_word_emb self)))"
    and "size2 (params w (emb_weight (src_word_emb self))) = (n, d)"
    and "PositionalEncoding_init d np = Inr (enc_position_enc self)"
    and "\<forall>g x. wf3 x \<longrightarrow> keeps_shape x (fst (enc_dropout self g x))"
    and "\<forall>x. wf3 x \<longrightarrow> keeps_shape x (enc_layer_norm self x)"
    and "\<forall>l \<in> set (enc_layer_stack self). \<forall>g x. wf3 x \<longrightarrow> keeps_shape x (fst (fst (l g x m)))"
    and "wf2 input" "size2 input = (B, L)"
    and "list_all (list_all (\<lambda>i. 0 \<le> i \<and> i < int n)) (data2 input)"
    and "L \<le> np"
    and "0 \<le> padding_idx (src_word_emb self)" "padding_idx (src_word_emb self) < int n"
  shows "\<exists>r w'. Encoder_forward self w input m ra = Inr (r, w')
           \<and> wf3 (enc_primary r) \<and> size3 (enc_primary r) = (B, L, d)"
proof -
  obtain e where e: "Embedding_forward (params w) (src_word_emb self) input = Inr e"
    "wf3 e" "size3 e = (B, L, d)"
    using Embedding_forward_shape [of "params w" "src_word_emb self", OF assms(1,2,7,8,9,11,12)] by blast
  obtain s where s: "scale_by_sqrt (enc_scale_emb self) (enc_d_model self) e = Inr s"
    "wf3 s" "size3 s = (B, L, d)"
    using scale_by_sqrt_shape [OF e(2)] e(3) by metis
  obtain p where p: "PositionalEncoding_forward (enc_position_enc self) s = Inr p"
    "wf3 p" "size3 p = (B, L, d)"
    using PositionalEncoding_forward_shape [OF assms(3) s(3) assms(10)] by blast
  obtain x g where dr: "enc_dropout self (rng w) p = (x, g)" by (cases "enc_dropout self (rng w) p")
  have x: "wf3 x" "size3 x = (B, L, d)"
    using assms(4) p(2,3) dr by (auto simp: keeps_shape_def dest!: spec [of _ "rng w"] spec [of _ p])
  have n: "wf3 (enc_layer_norm self x)" "size3 (enc_layer_norm self x) = (B, L, d)"
    using assms(5) x by (auto simp: keeps_shape_def)
  obtain y attns g' where st: "enc_stack (enc_layer_stack self) m ra (enc_layer_norm self x, [], g)
      = (y, attns, g')"
    by (metis prod.exhaust)
  have y: "wf3 y" "size3 y = (B, L, d)"
    using enc_stack_shape [OF assms(6) n(1), of ra "[]" g] n(2) st by (simp_all add: keeps_shape_def)
  show ?thesis
    using y by (simp add: Encoder_forward_def e(1) s(1) p(1) dr st)
qed

lemma Decoder_forward_shape:
  assumes "wf2 (params w (emb_weight (trg_word_emb self)))"
    and "size2 (params w (emb_weight (trg_word_emb self))) = (n, d)"
    and "PositionalEncoding_init d np = Inr (dec_position_enc self)"
    and "\<forall>g x. wf3 x \<longrightarrow> keeps_shape x (fst (dec_dropout self g x))"
    and "\<forall>x. wf3 x \<longrightarrow> keeps_shape x (dec_layer_norm self x)"
    and "\<forall>l \<in> set (dec_layer_stack self). \<forall>g x. wf3 x \<longrightarrow>
           keeps_shape x (fst (fst (l g x enc tm sm)))"
    and "wf2 input" "size2 input = (B, L)"
    and "list_all (list_all (\<lambda>i. 0 \<le> i \<and> i < int n)) (data2 input)"
    and "L \<le> np"
    and "0 \<le> padding_idx (trg_word_emb self)" "padding_idx (trg_word_emb self) < int n"
  shows "\<exists>r w'. Decoder_forward self w input tm enc sm ra = Inr (r, w')
           \<and> wf3 (dec_primary r) \<and> size3 (dec_primary r) = (B, L, d)"
proof -
  obtain e where e: "Embedding_forward (params w) (trg_word_emb self) input = Inr e"
    "wf3 e" "size3 e = (B, L, d)"
    using Embedding_forward_shape [of "params w" "trg_word_emb self", OF assms(1,2,7,8,9,11,12)] by blast
  obtain s where s: "scale_by_sqrt (dec_scale_emb self) (dec_d_model self) e = Inr s"
    "wf3 s" "size3 s = (B, L, d)"
    using scale_by_sqrt_shape [OF e(2)] e(3) by metis
  obtain p where p: "PositionalEncoding_forward (dec_position_enc self) s = Inr p"
    "wf3 p" "size3 p = (B, L, d)"
    using PositionalEncoding_forward_shape [OF assms(3) s(3) assms(10)] by blast
  obtain x g where dr: "dec_dropout self (rng w) p = (x, g)" by (cases "dec_dropout self (rng w) p")
  have x: "wf3 x" "size3 x = (B, L, d)"
    using assms(4) p(2,3) dr by (auto simp: keeps_shape_def dest!: spec [of _ "rng w"] spec [of _ p])
  have n: "wf3 (dec_layer_norm self x)" "size3 (dec_layer_norm self x) = (B, L, d)"
    using assms(5) x by (auto simp: keeps_shape_def)
  obtain y a1 a2 g' where st:
    "dec_stack (dec_layer_stack self) enc tm sm ra (dec_layer_norm self x, [], [], g)
      = (y, a1, a2, g')"
    by (metis prod.exhaust)
  have y: "wf3 y" "size3 y = (B, L, d)"
    using dec_stack_shape [OF assms(6) n(1), of ra "[]" "[]" g] n(2) st
    by (simp_all add: keeps_shape_def)
  show ?thesis
    using y by (simp add: Decoder_forward_def e(1) s(1) p(1) dr st)
qed

lemma Linear_forward_shape:
  assumes "wf2 (st (lin_weight self))" "size2 (st (lin_weight self)) = (v, d)"
    and "wf3 x" "size3 x = (B, L, d)"
  shows "\<exists>y. Linear_forward st self x = Inr y \<and> wf3 y \<and> size3 y = (B, L, v)"
  using assms
  by (simp add: Linear_forward_def wf2_def wf3_def list_all_iff)

lemma length_concat_uniform:
  "\<forall>xs \<in> set xss. length xs = b \<Longrightarrow> length (concat xss) = length xss * b"
  by (induction xss) simp_all

lemma nth_concat_uniform:
  "\<forall>xs \<in> set xss. length xs = b \<Longrightarrow> i < length xss \<Longrightarrow> j < b \<Longrightarrow>
   concat xss ! (i * b + j) = xss ! i ! j"
proof (induction xss arbitrary: i)
  case Nil
  then show ?case by simp
next
  case (Cons xs xss)
  show ?case
  proof (cases i)
    case 0
    then show ?thesis using Cons.prems by (simp add: nth_append)
  next
    case (Suc k)
    then have "concat xss ! (k * b + j) = xss ! k ! j"
      using Cons.IH [of k] Cons.prems by simp
    moreover have "length xs = b" using Cons.prems by simp
    ultimately show ?thesis
      using Suc by (simp add: nth_append)
  qed
qed

lemma view_rows_shape:
  assumes "wf3 t" "size3 t = (a, b, c)" "0 < c"
  shows "\<exists>out. view_rows t = Inr out \<and> wf2 out \<and> size2 out = (a * b, c)
           \<and> (\<forall>i j. i < a \<and> j < b \<longrightarrow> data2 out ! (i * b + j) = data3 t ! i ! j)"
proof -
  have u: "\<forall>m \<in> set (data3 t). length m = b"
    and r: "\<forall>m \<in> set (data3 t). \<forall>r \<in> set m. length r = c"
    and l: "length (data3 t) = a"
    using assms(1,2) by (simp_all add: wf3_def list_all_iff)
  have "data2 (Tensor2 (a * b, c) (concat (data3 t))) ! (i * b + j) = data3 t ! i ! j"
    if "i < a" "j < b" for i j
    using nth_concat_uniform [OF u, of i j] that l by simp
  moreover have "wf2 (Tensor2 (a * b, c) (concat (data3 t)))"
    using length_concat_uniform [OF u] l r by (auto simp: wf2_def list_all_iff)
  ultimately show ?thesis
    using assms(3) by (simp add: view_rows_def assms(2))
qed

lemma layers_preserve_shape_enc:
  "layers_preserve_shape lib \<Longrightarrow>
   \<forall>l \<in> set (map (\<lambda>k. new_EncoderLayer lib k dm di nh dk dv p) [0..<nl]).
     \<forall>g x. wf3 x \<longrightarrow> keeps_shape x (fst (fst (l g x m)))"
  by (simp add: layers_preserve_shape_def)

lemma layers_preserve_shape_dec:
  "layers_preserve_shape lib \<Longrightarrow>
   \<forall>l \<in> set (map (\<lambda>k. new_DecoderLayer lib k dm di nh dk dv p) [0..<nl]).
     \<forall>g x. wf3 x \<longrightarrow> keeps_shape x (fst (fst (l g x e tm sm)))"
  by (simp add: layers_preserve_shape_def)

lemma layers_preserve_shape_dropout:
  "layers_preserve_shape lib \<Longrightarrow> \<forall>g x. wf3 x \<longrightarrow> keeps_shape x (fst (new_Dropout lib p g x))"
  by (simp add: layers_preserve_shape_def)

lemma layers_preserve_shape_norm:
  "layers_preserve_shape lib \<Longrightarrow> \<forall>x. wf3 x \<longrightarrow> keeps_shape x (new_LayerNorm lib d x)"
  by (simp add: layers_preserve_shape_def)


lemma example_library_preserves_shape: "layers_preserve_shape example_library"
  by (simp add: layers_preserve_shape_def example_library_def keeps_shape_def)

lemma wf2_new_store: "wf2 (new_store lib c a)"
proof -
  have "wf2 (Tensor2 (0, 0) ([] :: real list list))"
    by (simp add: wf2_def)
  then show ?thesis
    by (simp add: new_store_def wf2_mk2)
qed

lemma forward_parts:
  assumes init: "Transformer_init lib c = Inr (self, st)"
    and lib: "layers_preserve_shape lib"
    and store: "\<forall>a. wf2 (params w a) \<and> size2 (params w a) = size2 (st a)"
    and src: "wf2 src_seq" "size2 src_seq = (B, Ls)"
      "list_all (list_all (\<lambda>i. 0 \<le> i \<and>
          i < int (if emb_src_trg_weight_sharing c then n_trg_vocab c else n_src_vocab c)))
        (data2 src_seq)"
    and trg: "wf2 trg_seq" "size2 trg_seq = (B, Lt)"
      "list_all (list_all (\<lambda>i. 0 \<le> i \<and> i < int (n_trg_vocab c))) (data2 trg_seq)"
    and len: "Ls \<le> n_position c" "Lt \<le> n_position c"
    and pad: "emb_src_trg_weight_sharing c \<longrightarrow>
        (if src_pad_idx c < 0 then int (n_src_vocab c) + src_pad_idx c else src_pad_idx c)
          < int (n_trg_vocab c)"
  shows "\<exists>enc_res w1 trg_mask dec_res w2 l0.
           Encoder_forward (encoder self) w src_seq (get_pad_mask src_seq (src_pad_idx c)) False
             = Inr (enc_res, w1)
         \<and> size3 (enc_primary enc_res) = (B, Ls, d_model c)
         \<and> and_tensor (get_pad_mask trg_seq (trg_pad_idx c)) (get_subsequent_mask trg_seq)
             = Inr trg_mask
         \<and> Decoder_forward (decoder self) w1 trg_seq trg_mask (enc_primary enc_res)
               (get_pad_mask src_seq (src_pad_idx c)) False
             = Inr (dec_res, w2)
         \<and> size3 (dec_primary dec_res) = (B, Lt, d_model c)
         \<and> Linear_forward (params w2) (trg_word_prj self) (dec_primary dec_res) = Inr l0
         \<and> wf3 l0 \<and> size3 l0 = (B, Lt, n_trg_vocab c)"
proof -
  note f = Transformer_init_fields [OF init]
  have acc: "accepted_args c" by (rule Transformer_init_accepted [OF init])
  have dd: "d_word_vec c = d_model c"
    using acc by (auto simp: accepted_args_def)
  let ?sm = "get_pad_mask src_seq (src_pad_idx c)"
  let ?nsrc = "if emb_src_trg_weight_sharing c then n_trg_vocab c else n_src_vocab c"
  have wfp: "wf2 (params w a)" for a using store by simp
  have s_src: "size2 (params w (emb_weight (src_word_emb (encoder self)))) = (?nsrc, d_model c)"
    using store by (simp add: f(1,3) new_store_0 new_store_1 size2_mk2 dd)
  have s_trg: "size2 (params w (emb_weight (trg_word_emb (decoder self)))) = (n_trg_vocab c, d_model c)"
    using store by (simp add: f(1,2) new_store_1 size2_mk2 dd)
  have s_prj: "size2 (params w (lin_weight (trg_word_prj self))) = (n_trg_vocab c, d_model c)"
    using store by (simp add: f(1,4) new_store_1 new_store_2 size2_mk2 dd)
  have p_src: "0 \<le> padding_idx (src_word_emb (encoder self))"
    "padding_idx (src_word_emb (encoder self)) < int ?nsrc"
    using acc pad by (auto simp: f(23) accepted_args_def)
  have p_trg: "0 \<le> padding_idx (trg_word_emb (decoder self))"
    "padding_idx (trg_word_emb (decoder self)) < int (n_trg_vocab c)"
    using acc by (auto simp: f(24) accepted_args_def)
  have pe_e: "PositionalEncoding_init (d_model c) (n_position c) = Inr (enc_position_enc (encoder self))"
    using f(15) by (simp add: dd)
  have pe_d: "PositionalEncoding_init (d_model c) (n_position c) = Inr (dec_position_enc (decoder self))"
    using f(16) by (simp add: dd)
  obtain enc_res w1 where e:
    "Encoder_forward (encoder self) w src_seq ?sm False = Inr (enc_res, w1)"
    "wf3 (enc_primary enc_res)" "size3 (enc_primary enc_res) = (B, Ls, d_model c)"
    using Encoder_forward_shape [of w "encoder self", OF wfp s_src pe_e _ _ _ src len(1) p_src,
        of ?sm False]
      layers_preserve_shape_enc [OF lib] layers_preserve_shape_dropout [OF lib]
      layers_preserve_shape_norm [OF lib]
    unfolding f(17,19,21) by blast
  have p1: "params w1 = params w" by (rule Encoder_forward_params [OF e(1)])
  let ?tm = "mk3 (B, Lt, Lt) (\<lambda>b i j. at2 trg_seq b j \<noteq> trg_pad_idx c \<and> j \<le> i)"
  have m: "and_tensor (get_pad_mask trg_seq (trg_pad_idx c)) (get_subsequent_mask trg_seq) = Inr ?tm"
    by (rule target_mask_mk3 [OF trg(1,2)])
  have wfp1: "wf2 (params w1 a)" for a using wfp p1 by simp
  have s_trg1: "size2 (params w1 (emb_weight (trg_word_emb (decoder self)))) = (n_trg_vocab c, d_model c)"
    using s_trg p1 by simp
  obtain dec_res w2 where d:
    "Decoder_forward (decoder self) w1 trg_seq ?tm (enc_primary enc_res) ?sm False = Inr (dec_res, w2)"
    "wf3 (dec_primary dec_res)" "size3 (dec_primary dec_res) = (B, Lt, d_model c)"
    using Decoder_forward_shape [of w1 "decoder self", OF wfp1 s_trg1 pe_d _ _ _ trg len(2) p_trg,
        of "enc_primary enc_res" ?tm ?sm False]
      layers_preserve_shape_dec [OF lib] layers_preserve_shape_dropout [OF lib]
      layers_preserve_shape_norm [OF lib]
    unfolding f(18,20,22) by blast
  have p2: "params w2 = params w" using Decoder_forward_params [OF d(1)] p1 by simp
  obtain l0 where l0: "Linear_forward (params w2) (trg_word_prj self) (dec_primary dec_res) = Inr l0"
    "wf3 l0" "size3 l0 = (B, Lt, n_trg_vocab c)"
    using Linear_forward_shape [of "params w" "trg_word_prj self", OF wfp s_prj d(2,3)] p2
    by auto
  show ?thesis
    using e(1,3) m d(1,3) l0 by blast
qed

section \<open>The flag return_attns\<close>

lemma Encoder_forward_flag:
  "Encoder_forward self w src_seq src_mask ra
     = (case Encoder_forward self w src_seq src_mask True of
          Inl e \<Rightarrow> Inl e
        | Inr (r, w') \<Rightarrow> Inr (if ra then r else EncOut (enc_primary r), w'))"
  by (cases ra)
     (auto simp: Encoder_forward_def enc_stack_spec split: sum.splits prod.splits)

lemma Decoder_forward_flag:
  "Decoder_forward self w trg_seq trg_mask enc_output src_mask ra
     = (case Decoder_forward self w trg_seq trg_mask enc_output src_mask True of
          Inl e \<Rightarrow> Inl e
        | Inr (r, w') \<Rightarrow> Inr (if ra then r else DecOut (dec_primary r), w'))"
  by (cases ra)
     (auto simp: Decoder_forward_def dec_stack_spec split: sum.splits prod.splits)

lemma Encoder_forward_True_shape:
  "Encoder_forward self w src_seq src_mask True = Inr (r, w') \<Longrightarrow>
   \<exists>out attns. r = EncOutAttns out attns \<and> length attns = length (enc_layer_stack self)"
  by (auto simp: Encoder_forward_def enc_stack_spec split: sum.splits prod.splits
        dest: spec_encoder_blocks_length)

lemma Decoder_forward_True_shape:
  "Decoder_forward self w trg_seq trg_mask enc_output src_mask True = Inr (r, w') \<Longrightarrow>
   \<exists>out attns1 attns2. r = DecOutAttns out attns1 attns2
      \<and> length attns1 = length (dec_layer_stack self)
      \<and> length attns2 = length (dec_layer_stack self)"
  by (auto simp: Decoder_forward_def dec_stack_spec split: sum.splits prod.splits
        dest: spec_decoder_blocks_length)


text \<open>
  Claim C9. For every encoder, state and input, \<open>Encoder.forward\<close> with \<open>return_attns\<close> false
  and with it true fail together with the same error, or return the same primary output
  tensor and leave the same state; the flag decides only whether the list of attention
  matrices, one per layer, is returned with it. The same holds for \<open>Decoder.forward\<close> and
  its two lists. The lists that are returned are the lists of the sequential application
  of the blocks to the normalised embedding, in layer order: for either value of the flag
  the forward pass is that application, and the flag only keeps or drops the lists.
\<close>

theorem return_attns_only_auxiliary:
  "(case Encoder_forward eself w src_seq src_mask False of
      Inl e \<Rightarrow> Encoder_forward eself w src_seq src_mask True = Inl e
    | Inr (r, w') \<Rightarrow>
        (\<exists>out attns. r = EncOut out
           \<and> Encoder_forward eself w src_seq src_mask True = Inr (EncOutAttns out attns, w')
           \<and> length attns = length (enc_layer_stack eself)))
 \<and> (case Decoder_forward dself w trg_seq trg_mask enc_output src_mask False of
      Inl e \<Rightarrow> Decoder_forward dself w trg_seq trg_mask enc_output src_mask True = Inl e
    | Inr (r, w') \<Rightarrow>
        (\<exists>out slf_attns enc_attns. r = DecOut out
           \<and> Decoder_forward dself w trg_seq trg_mask enc_output src_mask True
               = Inr (DecOutAttns out slf_attns enc_attns, w')
           \<and> length slf_attns = length (dec_layer_stack dself)
           \<and> length enc_attns = length (dec_layer_stack dself)))
 \<and> Encoder_forward eself w src_seq src_mask ra =
     (case Embedding_forward (params w) (src_word_emb eself) src_seq of Inl e \<Rightarrow> Inl e
      | Inr emb \<Rightarrow>
     (case PositionalEncoding_forward (enc_position_enc eself)
             (if enc_scale_emb eself
              then tmap3 (\<lambda>v. v * sqrt (real (enc_d_model eself))) emb else emb) of
        Inl e \<Rightarrow> Inl e
      | Inr x \<Rightarrow>
     (case enc_dropout eself (rng w) x of (x, g) \<Rightarrow>
     (case spec_encoder_blocks (enc_layer_stack eself) src_mask g (enc_layer_norm eself x) of
        (y, attns, g') \<Rightarrow>
          Inr (if ra then EncOutAttns y attns else EncOut y, w\<lparr>rng := g'\<rparr>)))))
 \<and> Decoder_forward dself w trg_seq trg_mask enc_output src_mask ra =
     (case Embedding_forward (params w) (trg_word_emb dself) trg_seq of Inl e \<Rightarrow> Inl e
      | Inr emb \<Rightarrow>
     (case PositionalEncoding_forward (dec_position_enc dself)
             (if dec_scale_emb dself
              then tmap3 (\<lambda>v. v * sqrt (real (dec_d_model dself))) emb else emb) of
        Inl e \<Rightarrow> Inl e
      | Inr x \<Rightarrow>
     (case dec_dropout dself (rng w) x of (x, g) \<Rightarrow>
     (case spec_decoder_blocks (dec_layer_stack dself) enc_output trg_mask src_mask g
             (dec_layer_norm dself x) of
        (y, slf_attns, enc_attns, g') \<Rightarrow>
          Inr (if ra then DecOutAttns y slf_attns enc_attns else DecOut y, w\<lparr>rng := g'\<rparr>)))))
 \<and> enc_stack elayers src_mask ra (x, acc, g)
     = (case spec_encoder_blocks elayers src_mask g x of
          (y, attns, g') \<Rightarrow> (y, acc @ (if ra then attns else []), g'))
 \<and> dec_stack dlayers enc_output trg_mask src_mask ra (x, acc1, acc2, g)
     = (case spec_decoder_blocks dlayers enc_output trg_mask src_mask g x of
          (y, slf_attns, enc_attns, g') \<Rightarrow>
            (y, acc1 @ (if ra then slf_attns else []), acc2 @ (if ra then enc_attns else []), g'))"
proof (intro conjI)
  show "case Encoder_forward eself w src_seq src_mask False of
      Inl e \<Rightarrow> Encoder_forward eself w src_seq src_mask True = Inl e
    | Inr (r, w') \<Rightarrow>
        (\<exists>out attns. r = EncOut out
           \<and> Encoder_forward eself w src_seq src_mask True = Inr (EncOutAttns out attns, w')
           \<and> length attns = length (enc_layer_stack eself))"
  proof (cases "Encoder_forward eself w src_seq src_mask True")
    case (Inl e)
    then show ?thesis
      by (simp add: Encoder_forward_flag [of eself w src_seq src_mask False])
  next
    case (Inr p)
    obtain r w' where p: "p = (r, w')" by (cases p)
    from Encoder_forward_True_shape [OF Inr [unfolded p]]
    obtain out attns where "r = EncOutAttns out attns"
      "length attns = length (enc_layer_stack eself)" by blast
    then show ?thesis
      using Inr p by (simp add: Encoder_forward_flag [of eself w src_seq src_mask False])
  qed
  show "case Decoder_forward dself w trg_seq trg_mask enc_output src_mask False of
      Inl e \<Rightarrow> Decoder_forward dself w trg_seq trg_mask enc_output src_mask True = Inl e
    | Inr (r, w') \<Rightarrow>
        (\<exists>out slf_attns enc_attns. r = DecOut out
           \<and> Decoder_forward dself w trg_seq trg_mask enc_output src_mask True
               = Inr (DecOutAttns out slf_attns enc_attns, w')
           \<and> length slf_attns = length (dec_layer_stack dself)
           \<and> length enc_attns = length (dec_layer_stack dself))"
  proof (cases "Decoder_forward dself w trg_seq trg_mask enc_output src_mask True")
    case (Inl e)
    then show ?thesis
      by (simp add: Decoder_forward_flag [of dself w trg_seq trg_mask enc_output src_mask False])
  next
    case (Inr p)
    obtain r w' where p: "p = (r, w')" by (cases p)
    from Decoder_forward_True_shape [OF Inr [unfolded p]]
    obtain out a1 a2 where "r = DecOutAttns out a1 a2"
      "length a1 = length (dec_layer_stack dself)" "length a2 = length (dec_layer_stack dself)"
      by blast
    then show ?thesis
      using Inr p
      by (simp add: Decoder_forward_flag [of dself w trg_seq trg_mask enc_output src_mask False])
  qed
qed (rule Encoder_forward_spec, rule Decoder_forward_spec, rule enc_stack_spec,
    rule dec_stack_spec)

theorem return_attns_only_auxiliary_witness:
  "\<exists>self st.
     Transformer_init example_library example_args = Inr (self, st)
   \<and> Encoder_forward (encoder self) \<lparr>params = st, rng = 0\<rparr> (Tensor2 (1, 1) [[1]])
        (get_pad_mask (Tensor2 (1, 1) [[1]]) 0) True
      = Inr (EncOutAttns (Tensor3 (1, 1, 2) [[[2, 4]]]) [0, 1], \<lparr>params = st, rng = 3\<rparr>)
   \<and> Encoder_forward (encoder self) \<lparr>params = st, rng = 0\<rparr> (Tensor2 (1, 1) [[1]])
        (get_pad_mask (Tensor2 (1, 1) [[1]]) 0) False
      = Inr (EncOut (Tensor3 (1, 1, 2) [[[2, 4]]]), \<lparr>params = st, rng = 3\<rparr>)"
proof -
  obtain self st where i: "Transformer_init example_library example_args = Inr (self, st)"
    using example_init_ex by blast
  let ?w = "\<lparr>params = st, rng = 0::nat\<rparr>"
  let ?s = "Tensor2 (1, 1) [[1::int]]"
  let ?m = "get_pad_mask ?s 0"
  have t: "Encoder_forward (encoder self) ?w ?s ?m True
      = Inr (EncOutAttns (Tensor3 (1, 1, 2) [[[2, 4]]]) [0, 1], \<lparr>params = st, rng = 3\<rparr>)"
    using example_Encoder_forward [OF i, of 0 ?m True] by (simp add: numeral_3_eq_3)
  have "case Encoder_forward (encoder self) ?w ?s ?m False of
      Inl e \<Rightarrow> Encoder_forward (encoder self) ?w ?s ?m True = Inl e
    | Inr (r, w') \<Rightarrow>
        (\<exists>out attns. r = EncOut out
           \<and> Encoder_forward (encoder self) ?w ?s ?m True = Inr (EncOutAttns out attns, w')
           \<and> length attns = length (enc_layer_stack (encoder self)))"
    by (rule return_attns_only_auxiliary [of "encoder self" ?w ?s ?m, THEN conjunct1])
  then have "Encoder_forward (encoder self) ?w ?s ?m False
      = Inr (EncOut (Tensor3 (1, 1, 2) [[[2, 4]]]), \<lparr>params = st, rng = 3\<rparr>)"
    unfolding t by (auto split: sum.splits)
  with i t show ?thesis by blast
qed

section \<open>Weight sharing\<close>

text \<open>
  Claim C4. In a constructed Transformer, with sharing of the target embedding and the
  projection the weight of the projection and the table of the target embedding are one
  reference, so that a write to the store through either is read through the other; with
  sharing of the source and target embeddings the two tables are one reference; with both
  switches all three are. Without a switch the two references differ. A forward pass
  returns the store it was given: no forward pass changes a weight or a reference.
\<close>

theorem weight_sharing_identity:
  assumes "Transformer_init lib c = Inr (self, st)"
  shows "(trg_emb_prj_weight_sharing c \<longrightarrow>
            lin_weight (trg_word_prj self) = emb_weight (trg_word_emb (decoder self))
          \<and> (\<forall>st' v. (st'(lin_weight (trg_word_prj self) := v))
                         (emb_weight (trg_word_emb (decoder self))) = v
                    \<and> (st'(emb_weight (trg_word_emb (decoder self)) := v))
                         (lin_weight (trg_word_prj self)) = v))
       \<and> (emb_src_trg_weight_sharing c \<longrightarrow>
            emb_weight (src_word_emb (encoder self)) = emb_weight (trg_word_emb (decoder self))
          \<and> (\<forall>st' v. (st'(emb_weight (src_word_emb (encoder self)) := v))
                         (emb_weight (trg_word_emb (decoder self))) = v
                    \<and> (st'(emb_weight (trg_word_emb (decoder self)) := v))
                         (emb_weight (src_word_emb (encoder self))) = v))
       \<and> (trg_emb_prj_weight_sharing c \<and> emb_src_trg_weight_sharing c \<longrightarrow>
            emb_weight (src_word_emb (encoder self)) = emb_weight (trg_word_emb (decoder self))
          \<and> lin_weight (trg_word_prj self) = emb_weight (trg_word_emb (decoder self)))
       \<and> (\<not> trg_emb_prj_weight_sharing c \<longrightarrow>
            lin_weight (trg_word_prj self) \<noteq> emb_weight (trg_word_emb (decoder self)))
       \<and> (\<not> emb_src_trg_weight_sharing c \<longrightarrow>
            emb_weight (src_word_emb (encoder self)) \<noteq> emb_weight (trg_word_emb (decoder self)))
       \<and> (\<forall>w src_seq trg_seq out w'.
            Transformer_forward self w src_seq trg_seq = Inr (out, w') \<longrightarrow> params w' = params w)"
  using Transformer_init_fields(2,3,4) [OF assms]
  by (auto dest: Transformer_forward_params)

theorem weight_sharing_identity_witness:
  "\<exists>self st. Transformer_init example_library example_args = Inr (self, st)
     \<and> trg_emb_prj_weight_sharing example_args \<and> emb_src_trg_weight_sharing example_args
     \<and> lin_weight (trg_word_prj self) = emb_weight (trg_word_emb (decoder self))
     \<and> emb_weight (src_word_emb (encoder self)) = emb_weight (trg_word_emb (decoder self))"
proof -
  obtain self st where i: "Transformer_init example_library example_args = Inr (self, st)"
    using example_init_ex by blast
  have h: "trg_emb_prj_weight_sharing example_args" "emb_src_trg_weight_sharing example_args"
    by (simp_all add: example_args_def)
  with weight_sharing_identity [OF i]
  have "lin_weight (trg_word_prj self) = emb_weight (trg_word_emb (decoder self))
      \<and> emb_weight (src_word_emb (encoder self)) = emb_weight (trg_word_emb (decoder self))"
    by blast
  with i h show ?thesis by blast
qed


text \<open>
  Claim C10. For arguments that the constructor accepts (none of its checks compares the
  two vocabulary sizes), with sharing of the source and target embeddings and
  \<open>n_src_vocab \<noteq> n_trg_vocab\<close>, the construction returns a model: the source embedding
  refers to the table of the target embedding, which has \<open>n_trg_vocab\<close> rows, and its
  field \<open>num_embeddings\<close> still holds \<open>n_src_vocab\<close>. Its lookup is bounded by the rows of
  the shared table and not by \<open>n_src_vocab\<close>: it returns exactly when the padding index of
  the source and every token id are below \<open>n_trg_vocab\<close>, and when the padding index is
  not, every lookup fails the assertion of the lookup on the padding index.
\<close>

theorem shared_embedding_vocab_mismatch:
  assumes "accepted_args c" and "emb_src_trg_weight_sharing c"
    and "n_src_vocab c \<noteq> n_trg_vocab c"
  shows "\<exists>self st. Transformer_init lib c = Inr (self, st)
           \<and> emb_weight (src_word_emb (encoder self)) = emb_weight (trg_word_emb (decoder self))
           \<and> size2 (st (emb_weight (src_word_emb (encoder self)))) = (n_trg_vocab c, d_word_vec c)
           \<and> wf2 (st (emb_weight (src_word_emb (encoder self))))
           \<and> num_embeddings (src_word_emb (encoder self)) = n_src_vocab c
           \<and> padding_idx (src_word_emb (encoder self))
               = (if src_pad_idx c < 0 then int (n_src_vocab c) + src_pad_idx c else src_pad_idx c)
           \<and> (\<forall>input. (\<exists>y. Embedding_forward st (src_word_emb (encoder self)) input = Inr y)
                  = (padding_idx (src_word_emb (encoder self)) < int (n_trg_vocab c)
                     \<and> list_all (list_all (\<lambda>i. 0 \<le> i \<and> i < int (n_trg_vocab c))) (data2 input)))
           \<and> (\<forall>input. (Embedding_forward st (src_word_emb (encoder self)) input = Inl AssertionError)
                  = (int (n_trg_vocab c) \<le> padding_idx (src_word_emb (encoder self))))"
proof -
  obtain self st where i: "Transformer_init lib c = Inr (self, st)"
    using assms(1) Transformer_init_succeeds_iff [of lib c] by blast
  note f = Transformer_init_fields [OF i]
  have a: "emb_weight (src_word_emb (encoder self)) = Suc 0"
    using f(3) assms(2) by simp
  have t: "st (Suc 0) = mk2 (n_trg_vocab c, d_word_vec c) (xavier_uniform lib 1)"
    unfolding f(1) by (rule new_store_1)
  have p: "0 \<le> padding_idx (src_word_emb (encoder self))" and v: "0 < n_trg_vocab c"
    using assms(1) by (auto simp: f(23) accepted_args_def)
  have 1: "(\<exists>y. Embedding_forward st (src_word_emb (encoder self)) input = Inr y)
      = (padding_idx (src_word_emb (encoder self)) < int (n_trg_vocab c)
         \<and> list_all (list_all (\<lambda>i. 0 \<le> i \<and> i < int (n_trg_vocab c))) (data2 input))" for input
    using p v by (cases "size2 input") (auto simp: Embedding_forward_def a t size2_mk2)
  have 2: "(Embedding_forward st (src_word_emb (encoder self)) input = Inl AssertionError)
      = (int (n_trg_vocab c) \<le> padding_idx (src_word_emb (encoder self)))" for input
    using p v by (cases "size2 input") (auto simp: Embedding_forward_def a t size2_mk2)
  show ?thesis
    using i f(2,5,23) a t 1 2 by (simp add: size2_mk2 wf2_mk2)
qed

theorem shared_embedding_vocab_mismatch_witness:
  "accepted_args example_args \<and> emb_src_trg_weight_sharing example_args
   \<and> n_src_vocab example_args \<noteq> n_trg_vocab example_args
   \<and> (\<exists>self st. Transformer_init example_library example_args = Inr (self, st)
         \<and> emb_weight (src_word_emb (encoder self)) = emb_weight (trg_word_emb (decoder self))
         \<and> size2 (st (emb_weight (src_word_emb (encoder self)))) = (4, 2)
         \<and> num_embeddings (src_word_emb (encoder self)) = 3
         \<and> (\<exists>y. Embedding_forward st (src_word_emb (encoder self)) (Tensor2 (1, 1) [[3]]) = Inr y))
   \<and> accepted_args (example_args\<lparr>n_src_vocab := 4, n_trg_vocab := 3, src_pad_idx := 3\<rparr>)
   \<and> (\<exists>self st.
         Transformer_init example_library
           (example_args\<lparr>n_src_vocab := 4, n_trg_vocab := 3, src_pad_idx := 3\<rparr>) = Inr (self, st)
         \<and> num_embeddings (src_word_emb (encoder self)) = 4
         \<and> size2 (st (emb_weight (src_word_emb (encoder self)))) = (3, 2)
         \<and> Embedding_forward st (src_word_emb (encoder self)) (Tensor2 (1, 2) [[1, 2]])
             = Inl AssertionError)"
proof -
  have h: "emb_src_trg_weight_sharing example_args"
    "n_src_vocab example_args \<noteq> n_trg_vocab example_args"
    by (simp_all add: example_args_def)
  from shared_embedding_vocab_mismatch [OF example_args_accepted h, of example_library]
  obtain self st where i: "Transformer_init example_library example_args = Inr (self, st)"
    and e: "emb_weight (src_word_emb (encoder self)) = emb_weight (trg_word_emb (decoder self))"
    and s: "size2 (st (emb_weight (src_word_emb (encoder self))))
            = (n_trg_vocab example_args, d_word_vec example_args)"
    and n: "num_embeddings (src_word_emb (encoder self)) = n_src_vocab example_args"
    and p: "padding_idx (src_word_emb (encoder self))
            = (if src_pad_idx example_args < 0
               then int (n_src_vocab example_args) + src_pad_idx example_args
               else src_pad_idx example_args)"
    and l: "\<And>input. (\<exists>y. Embedding_forward st (src_word_emb (encoder self)) input = Inr y)
                  = (padding_idx (src_word_emb (encoder self)) < int (n_trg_vocab example_args)
                     \<and> list_all (list_all (\<lambda>i. 0 \<le> i \<and> i < int (n_trg_vocab example_args)))
                         (data2 input))"
    by blast
  have 1: "\<exists>y. Embedding_forward st (src_word_emb (encoder self)) (Tensor2 (1, 1) [[3]]) = Inr y"
    unfolding l p by (simp add: example_args_def)
  let ?c = "example_args\<lparr>n_src_vocab := 4, n_trg_vocab := 3, src_pad_idx := 3\<rparr>"
  have acc: "accepted_args ?c"
    by (simp add: accepted_args_def example_args_def)
  have h': "emb_src_trg_weight_sharing ?c" "n_src_vocab ?c \<noteq> n_trg_vocab ?c"
    by (simp_all add: example_args_def)
  from shared_embedding_vocab_mismatch [OF acc h', of example_library]
  obtain self' st' where i': "Transformer_init example_library ?c = Inr (self', st')"
    and s': "size2 (st' (emb_weight (src_word_emb (encoder self'))))
            = (n_trg_vocab ?c, d_word_vec ?c)"
    and n': "num_embeddings (src_word_emb (encoder self')) = n_src_vocab ?c"
    and p': "padding_idx (src_word_emb (encoder self'))
            = (if src_pad_idx ?c < 0 then int (n_src_vocab ?c) + src_pad_idx ?c
               else src_pad_idx ?c)"
    and l': "\<And>input. (Embedding_forward st' (src_word_emb (encoder self')) input
                        = Inl AssertionError)
                  = (int (n_trg_vocab ?c) \<le> padding_idx (src_word_emb (encoder self')))"
    by blast
  have 2: "Embedding_forward st' (src_word_emb (encoder self')) (Tensor2 (1, 2) [[1, 2]])
         = Inl AssertionError"
    unfolding l' p' by simp
  have "\<exists>self st. Transformer_init example_library example_args = Inr (self, st)
         \<and> emb_weight (src_word_emb (encoder self)) = emb_weight (trg_word_emb (decoder self))
         \<and> size2 (st (emb_weight (src_word_emb (encoder self)))) = (4, 2)
         \<and> num_embeddings (src_word_emb (encoder self)) = 3
         \<and> (\<exists>y. Embedding_forward st (src_word_emb (encoder self)) (Tensor2 (1, 1) [[3]]) = Inr y)"
    using i e s n 1 by (auto simp: example_args_def)
  moreover have "\<exists>self st. Transformer_init example_library ?c = Inr (self, st)
         \<and> num_embeddings (src_word_emb (encoder self)) = 4
         \<and> size2 (st (emb_weight (src_word_emb (encoder self)))) = (3, 2)
         \<and> Embedding_forward st (src_word_emb (encoder self)) (Tensor2 (1, 2) [[1, 2]])
             = Inl AssertionError"
    using i' s' n' 2 by (auto simp: example_args_def)
  ultimately show ?thesis
    using example_args_accepted h acc by blast
qed

section \<open>The mask of decoder self-attention\<close>

lemma dec_stack_cong:
  "list_all2 (\<lambda>l l'. \<forall>g x. l g x e tm sm = l' g x e tm sm) ls ls' \<Longrightarrow>
   dec_stack ls e tm sm ra s = dec_stack ls' e tm sm ra s"
proof (induction ls ls' arbitrary: s rule: list_all2_induct)
  case Nil
  then show ?case by simp
next
  case (Cons l ls l' ls')
  obtain x a1 a2 g where s: "s = (x, a1, a2, g)" by (cases s)
  show ?case
    unfolding s using Cons by (simp split: prod.splits)
qed

lemma Decoder_forward_cong:
  assumes "list_all2 (\<lambda>l l'. \<forall>g x. l g x e tm sm = l' g x e tm sm) (dec_layer_stack self) ls'"
  shows "Decoder_forward (self\<lparr>dec_layer_stack := ls'\<rparr>) w trg_seq tm e sm ra
       = Decoder_forward self w trg_seq tm e sm ra"
  unfolding Decoder_forward_def
  by (simp add: dec_stack_cong [OF assms] cong: sum.case_cong prod.case_cong)

lemma seq_logit_cong:
  assumes "and_tensor (get_pad_mask trg_seq (self_trg_pad_idx self)) (get_subsequent_mask trg_seq)
             = Inr tm"
    and "list_all2 (\<lambda>l l'. \<forall>g x e. l g x e tm (get_pad_mask src_seq (self_src_pad_idx self))
                                 = l' g x e tm (get_pad_mask src_seq (self_src_pad_idx self)))
           (dec_layer_stack (decoder self)) ls'"
  shows "seq_logit (self\<lparr>decoder := (decoder self)\<lparr>dec_layer_stack := ls'\<rparr>\<rparr>) w src_seq trg_seq
       = seq_logit self w src_seq trg_seq"
proof -
  have "list_all2 (\<lambda>l l'. \<forall>g x. l g x e tm (get_pad_mask src_seq (self_src_pad_idx self))
                                 = l' g x e tm (get_pad_mask src_seq (self_src_pad_idx self)))
           (dec_layer_stack (decoder self)) ls'" for e
    using assms(2) by (rule list_all2_mono) simp
  note c = Decoder_forward_cong [OF this]
  show ?thesis
    unfolding seq_logit_def Let_def
    by (simp add: assms(1) c cong: sum.case_cong prod.case_cong if_cong)
qed

lemma target_mask_example:
  "and_tensor (get_pad_mask (Tensor2 (1, 3) [[1, 2, 0]]) 0)
       (get_subsequent_mask (Tensor2 (1, 3) [[1, 2, 0]]))
     = Inr (Tensor3 (1, 3, 3)
         [[[True, False, False], [True, True, False], [True, True, False]]])"
  using target_mask_mk3 [OF ex_seq_wf, of 1 3 0]
  by (simp add: mk3_def upt3 at2_def)


lemma Transformer_forward_mask:
  assumes "and_tensor (get_pad_mask trg_seq (self_trg_pad_idx self)) (get_subsequent_mask trg_seq)
             = Inr trg_mask"
  shows "Transformer_forward self w src_seq trg_seq =
     (case Encoder_forward (encoder self) w src_seq
             (get_pad_mask src_seq (self_src_pad_idx self)) False of Inl e \<Rightarrow> Inl e
      | Inr (enc_res, w1) \<Rightarrow>
     (case Decoder_forward (decoder self) w1 trg_seq trg_mask (enc_primary enc_res)
             (get_pad_mask src_seq (self_src_pad_idx self)) False of Inl e \<Rightarrow> Inl e
      | Inr (dec_res, w2) \<Rightarrow>
     (case Linear_forward (params w2) (trg_word_prj self) (dec_primary dec_res) of
        Inl e \<Rightarrow> Inl e
      | Inr logit \<Rightarrow>
          if scale_prj self
          then (if self_d_model self = 0 then Inl ZeroDivisionError
                else (case view_rows
                             (tmap3 (\<lambda>v. v * real (self_d_model self) powr (- (1 / 2))) logit) of
                        Inl e \<Rightarrow> Inl e
                      | Inr out \<Rightarrow> Inr (out, w2)))
          else (case view_rows logit of Inl e \<Rightarrow> Inl e | Inr out \<Rightarrow> Inr (out, w2)))))"
  unfolding Transformer_forward_spec assms by simp

text \<open>
  Claim C1. For a target sequence tensor of shape \<open>(B, L)\<close> and any pad index, the mask that
  \<open>Transformer.forward\<close> builds with \<^verbatim>\<open>get_pad_mask(...) & get_subsequent_mask(...)\<close> is the
  broadcast conjunction of the two masks: it has shape \<open>(B, L, L)\<close> and its entry
  \<open>[b, i, j]\<close> is true exactly when \<open>seq[b, j] \<noteq> pad_idx\<close> and \<open>j \<le> i\<close>. The forward pass
  is the encoder, then the decoder called with this mask as its target mask, then the
  projection; the decoder hands its target mask to every block of its stack as the
  self-attention mask. It is the only self-attention mask that a decoder layer receives:
  replacing the decoder layers by layers that agree with them on this mask (and on the
  source padding mask as the other one) leaves the result of the forward pass unchanged.
  On \<open>[[1, 2, 0]]\<close> with pad index 0 the mask is \<open>[[[1, 0, 0], [1, 1, 0], [1, 1, 0]]]\<close>.
\<close>

theorem target_mask_correct:
  assumes "wf2 trg_seq" and "size2 trg_seq = (B, L)"
  shows "(\<exists>trg_mask.
            and_tensor (get_pad_mask trg_seq pad_idx) (get_subsequent_mask trg_seq) = Inr trg_mask
          \<and> size3 trg_mask = (B, L, L) \<and> wf3 trg_mask
          \<and> (\<forall>b i j. b < B \<and> i < L \<and> j < L \<longrightarrow>
                at3 trg_mask b i j = (at2 trg_seq b j \<noteq> pad_idx \<and> j \<le> i))
          \<and> (\<forall>(self :: ('g, 'a) Transformer) w src_seq.
                self_trg_pad_idx self = pad_idx \<longrightarrow>
                Transformer_forward self w src_seq trg_seq =
                  (case Encoder_forward (encoder self) w src_seq
                          (get_pad_mask src_seq (self_src_pad_idx self)) False of
                     Inl e \<Rightarrow> Inl e
                   | Inr (enc_res, w1) \<Rightarrow>
                  (case Decoder_forward (decoder self) w1 trg_seq trg_mask (enc_primary enc_res)
                          (get_pad_mask src_seq (self_src_pad_idx self)) False of
                     Inl e \<Rightarrow> Inl e
                   | Inr (dec_res, w2) \<Rightarrow>
                  (case Linear_forward (params w2) (trg_word_prj self) (dec_primary dec_res) of
                     Inl e \<Rightarrow> Inl e
                   | Inr logit \<Rightarrow>
                       if scale_prj self
                       then (if self_d_model self = 0 then Inl ZeroDivisionError
                             else (case view_rows
                                          (tmap3 (\<lambda>v. v * real (self_d_model self) powr (- (1 / 2)))
                                             logit) of
                                     Inl e \<Rightarrow> Inl e
                                   | Inr out \<Rightarrow> Inr (out, w2)))
                       else (case view_rows logit of
                               Inl e \<Rightarrow> Inl e
                             | Inr out \<Rightarrow> Inr (out, w2))))))
          \<and> (\<forall>(dself :: ('g, 'a) Decoder) w enc_output src_mask ra.
                Decoder_forward dself w trg_seq trg_mask enc_output src_mask ra =
                  (case Embedding_forward (params w) (trg_word_emb dself) trg_seq of
                     Inl e \<Rightarrow> Inl e
                   | Inr emb \<Rightarrow>
                  (case PositionalEncoding_forward (dec_position_enc dself)
                          (if dec_scale_emb dself
                           then tmap3 (\<lambda>v. v * sqrt (real (dec_d_model dself))) emb else emb) of
                     Inl e \<Rightarrow> Inl e
                   | Inr x \<Rightarrow>
                  (case dec_dropout dself (rng w) x of (x, g) \<Rightarrow>
                  (case spec_decoder_blocks (dec_layer_stack dself) enc_output trg_mask src_mask g
                          (dec_layer_norm dself x) of
                     (y, slf_attns, enc_attns, g') \<Rightarrow>
                       Inr (if ra then DecOutAttns y slf_attns enc_attns else DecOut y,
                            w\<lparr>rng := g'\<rparr>))))))
          \<and> (\<forall>(self :: ('g, 'a) Transformer) w src_seq layers.
                self_trg_pad_idx self = pad_idx
                \<and> list_all2
                    (\<lambda>l l'. \<forall>g x e.
                       l g x e trg_mask (get_pad_mask src_seq (self_src_pad_idx self))
                       = l' g x e trg_mask (get_pad_mask src_seq (self_src_pad_idx self)))
                    (dec_layer_stack (decoder self)) layers
                \<longrightarrow> Transformer_forward
                      (self\<lparr>decoder := (decoder self)\<lparr>dec_layer_stack := layers\<rparr>\<rparr>)
                      w src_seq trg_seq
                    = Transformer_forward self w src_seq trg_seq))
       \<and> and_tensor (get_pad_mask (Tensor2 (1, 3) [[1, 2, 0]]) 0)
            (get_subsequent_mask (Tensor2 (1, 3) [[1, 2, 0]]))
          = Inr (Tensor3 (1, 3, 3)
              [[[True, False, False], [True, True, False], [True, True, False]]])"
proof -
  let ?m = "mk3 (B, L, L) (\<lambda>b i j. at2 trg_seq b j \<noteq> pad_idx \<and> j \<le> i)"
  have m: "and_tensor (get_pad_mask trg_seq pad_idx) (get_subsequent_mask trg_seq) = Inr ?m"
    by (rule target_mask_mk3 [OF assms])
  have f: "Transformer_forward (self\<lparr>decoder := (decoder self)\<lparr>dec_layer_stack := layers\<rparr>\<rparr>)
             w src_seq trg_seq
           = Transformer_forward self w src_seq trg_seq"
    if "self_trg_pad_idx self = pad_idx"
      and "list_all2
             (\<lambda>l l'. \<forall>g x e.
                l g x e ?m (get_pad_mask src_seq (self_src_pad_idx self))
                = l' g x e ?m (get_pad_mask src_seq (self_src_pad_idx self)))
             (dec_layer_stack (decoder self)) layers"
    for self :: "('g, 'a) Transformer" and w src_seq layers
  proof -
    have m': "and_tensor (get_pad_mask trg_seq (self_trg_pad_idx self))
                (get_subsequent_mask trg_seq) = Inr ?m"
      using m that(1) by simp
    show ?thesis
      unfolding Transformer_forward_def
      by (simp only: seq_logit_cong [OF m' that(2)])
  qed
  have p: "Transformer_forward self w src_seq trg_seq =
                  (case Encoder_forward (encoder self) w src_seq
                          (get_pad_mask src_seq (self_src_pad_idx self)) False of
                     Inl e \<Rightarrow> Inl e
                   | Inr (enc_res, w1) \<Rightarrow>
                  (case Decoder_forward (decoder self) w1 trg_seq ?m (enc_primary enc_res)
                          (get_pad_mask src_seq (self_src_pad_idx self)) False of
                     Inl e \<Rightarrow> Inl e
                   | Inr (dec_res, w2) \<Rightarrow>
                  (case Linear_forward (params w2) (trg_word_prj self) (dec_primary dec_res) of
                     Inl e \<Rightarrow> Inl e
                   | Inr logit \<Rightarrow>
                       if scale_prj self
                       then (if self_d_model self = 0 then Inl ZeroDivisionError
                             else (case view_rows
                                          (tmap3 (\<lambda>v. v * real (self_d_model self) powr (- (1 / 2)))
                                             logit) of
                                     Inl e \<Rightarrow> Inl e
                                   | Inr out \<Rightarrow> Inr (out, w2)))
                       else (case view_rows logit of
                               Inl e \<Rightarrow> Inl e
                             | Inr out \<Rightarrow> Inr (out, w2)))))"
    if "self_trg_pad_idx self = pad_idx" for self :: "('g, 'a) Transformer" and w src_seq
  proof -
    have m': "and_tensor (get_pad_mask trg_seq (self_trg_pad_idx self))
                (get_subsequent_mask trg_seq) = Inr ?m"
      using m that by simp
    show ?thesis
      by (rule Transformer_forward_mask [OF m'])
  qed
  have "\<exists>trg_mask.
            and_tensor (get_pad_mask trg_seq pad_idx) (get_subsequent_mask trg_seq) = Inr trg_mask
          \<and> size3 trg_mask = (B, L, L) \<and> wf3 trg_mask
          \<and> (\<forall>b i j. b < B \<and> i < L \<and> j < L \<longrightarrow>
                at3 trg_mask b i j = (at2 trg_seq b j \<noteq> pad_idx \<and> j \<le> i))
          \<and> (\<forall>(self :: ('g, 'a) Transformer) w src_seq.
                self_trg_pad_idx self = pad_idx \<longrightarrow>
                Transformer_forward self w src_seq trg_seq =
                  (case Encoder_forward (encoder self) w src_seq
                          (get_pad_mask src_seq (self_src_pad_idx self)) False of
                     Inl e \<Rightarrow> Inl e
                   | Inr (enc_res, w1) \<Rightarrow>
                  (case Decoder_forward (decoder self) w1 trg_seq trg_mask (enc_primary enc_res)
                          (get_pad_mask src_seq (self_src_pad_idx self)) False of
                     Inl e \<Rightarrow> Inl e
                   | Inr (dec_res, w2) \<Rightarrow>
                  (case Linear_forward (params w2) (trg_word_prj self) (dec_primary dec_res) of
                     Inl e \<Rightarrow> Inl e
                   | Inr logit \<Rightarrow>
                       if scale_prj self
                       then (if self_d_model self = 0 then Inl ZeroDivisionError
                             else (case view_rows
                                          (tmap3 (\<lambda>v. v * real (self_d_model self) powr (- (1 / 2)))
                                             logit) of
                                     Inl e \<Rightarrow> Inl e
                                   | Inr out \<Rightarrow> Inr (out, w2)))
                       else (case view_rows logit of
                               Inl e \<Rightarrow> Inl e
                             | Inr out \<Rightarrow> Inr (out, w2))))))
          \<and> (\<forall>(dself :: ('g, 'a) Decoder) w enc_output src_mask ra.
                Decoder_forward dself w trg_seq trg_mask enc_output src_mask ra =
                  (case Embedding_forward (params w) (trg_word_emb dself) trg_seq of
                     Inl e \<Rightarrow> Inl e
                   | Inr emb \<Rightarrow>
                  (case PositionalEncoding_forward (dec_position_enc dself)
                          (if dec_scale_emb dself
                           then tmap3 (\<lambda>v. v * sqrt (real (dec_d_model dself))) emb else emb) of
                     Inl e \<Rightarrow> Inl e
                   | Inr x \<Rightarrow>
                  (case dec_dropout dself (rng w) x of (x, g) \<Rightarrow>
                  (case spec_decoder_blocks (dec_layer_stack dself) enc_output trg_mask src_mask g
                          (dec_layer_norm dself x) of
                     (y, slf_attns, enc_attns, g') \<Rightarrow>
                       Inr (if ra then DecOutAttns y slf_attns enc_attns else DecOut y,
                            w\<lparr>rng := g'\<rparr>))))))
          \<and> (\<forall>(self :: ('g, 'a) Transformer) w src_seq layers.
                self_trg_pad_idx self = pad_idx
                \<and> list_all2
                    (\<lambda>l l'. \<forall>g x e.
                       l g x e trg_mask (get_pad_mask src_seq (self_src_pad_idx self))
                       = l' g x e trg_mask (get_pad_mask src_seq (self_src_pad_idx self)))
                    (dec_layer_stack (decoder self)) layers
                \<longrightarrow> Transformer_forward
                      (self\<lparr>decoder := (decoder self)\<lparr>dec_layer_stack := layers\<rparr>\<rparr>)
                      w src_seq trg_seq
                    = Transformer_forward self w src_seq trg_seq)"
  proof (intro exI [of _ ?m] conjI allI impI)
    show "and_tensor (get_pad_mask trg_seq pad_idx) (get_subsequent_mask trg_seq) = Inr ?m"
      by (rule m)
    show "size3 ?m = (B, L, L)" by (rule size3_mk3)
    show "wf3 ?m" by (rule wf3_mk3)
    show "at3 ?m b i j = (at2 trg_seq b j \<noteq> pad_idx \<and> j \<le> i)"
      if "b < B \<and> i < L \<and> j < L" for b i j
      using that by (simp add: at3_mk3)
  qed (use p f in \<open>simp_all add: Decoder_forward_spec\<close>)
  then show ?thesis
    using target_mask_example by blast
qed

theorem target_mask_correct_witness:
  "wf2 (Tensor2 (1, 3) [[1, 2, 0::int]])
   \<and> size2 (Tensor2 (1, 3) [[1, 2, 0::int]]) = (1, 3)
   \<and> and_tensor (get_pad_mask (Tensor2 (1, 3) [[1, 2, 0]]) 0)
        (get_subsequent_mask (Tensor2 (1, 3) [[1, 2, 0]]))
      = Inr (Tensor3 (1, 3, 3)
          [[[True, False, False], [True, True, False], [True, True, False]]])"
  using target_mask_correct [where 'g = nat and 'a = nat, OF ex_seq_wf, of 1 3 0] ex_seq_wf
  by simp

section \<open>The scaling modes\<close>

lemma Transformer_init_selector_irrelevant:
  assumes "\<not> trg_emb_prj_weight_sharing c"
    and "scale_emb_or_prj c \<in> set [''emb'', ''prj'', ''none'']"
    and "s \<in> set [''emb'', ''prj'', ''none'']"
  shows "Transformer_init lib (c\<lparr>scale_emb_or_prj := s\<rparr>) = Transformer_init lib c"
proof -
  have n: "new_store lib (c\<lparr>scale_emb_or_prj := s\<rparr>) = new_store lib c"
    by (simp add: new_store_def)
  have l: "scale_emb_or_prj c \<notin> set [''emb'', ''prj'', ''none''] = False"
    "s \<notin> set [''emb'', ''prj'', ''none''] = False"
    using assms(2,3) by simp_all
  show ?thesis
    unfolding Transformer_init_def n
    using assms by (simp add: Let_def cong: sum.case_cong if_cong)
qed

lemma degenerate_forward:
  assumes "Transformer_init example_library (example_args\<lparr>d_word_vec := 0, d_model := 0\<rparr>)
             = Inr (self, st)"
  shows "Transformer_forward self \<lparr>params = st, rng = 0\<rparr>
           (Tensor2 (1, 1) [[1]]) (Tensor2 (1, 1) [[2]]) = Inl ZeroDivisionError"
proof -
  let ?c = "example_args\<lparr>d_word_vec := 0, d_model := 0\<rparr>"
  let ?w = "\<lparr>params = st, rng = 0::nat\<rparr>"
  note f = Transformer_init_fields [OF assms]
  have store: "\<forall>a. wf2 (params ?w a) \<and> size2 (params ?w a) = size2 (st a)"
    by (simp add: f(1) wf2_new_store)
  have src: "wf2 (Tensor2 (1, 1) [[1::int]])" "size2 (Tensor2 (1, 1) [[1::int]]) = (1, 1)"
    "list_all (list_all (\<lambda>i. 0 \<le> i \<and>
        i < int (if emb_src_trg_weight_sharing ?c then n_trg_vocab ?c else n_src_vocab ?c)))
      (data2 (Tensor2 (1, 1) [[1::int]]))"
    by (simp_all add: wf2_def example_args_def)
  have trg: "wf2 (Tensor2 (1, 1) [[2::int]])" "size2 (Tensor2 (1, 1) [[2::int]]) = (1, 1)"
    "list_all (list_all (\<lambda>i. 0 \<le> i \<and> i < int (n_trg_vocab ?c)))
      (data2 (Tensor2 (1, 1) [[2::int]]))"
    by (simp_all add: wf2_def example_args_def)
  have len: "1 \<le> n_position ?c" "1 \<le> n_position ?c"
    and pad: "emb_src_trg_weight_sharing ?c \<longrightarrow>
        (if src_pad_idx ?c < 0 then int (n_src_vocab ?c) + src_pad_idx ?c else src_pad_idx ?c)
          < int (n_trg_vocab ?c)"
    by (simp_all add: example_args_def)
  obtain enc_res w1 trg_mask dec_res w2 l0 where
    e: "Encoder_forward (encoder self) ?w (Tensor2 (1, 1) [[1]])
          (get_pad_mask (Tensor2 (1, 1) [[1]]) (src_pad_idx ?c)) False = Inr (enc_res, w1)"
    and m: "and_tensor (get_pad_mask (Tensor2 (1, 1) [[2]]) (trg_pad_idx ?c))
          (get_subsequent_mask (Tensor2 (1, 1) [[2]])) = Inr trg_mask"
    and d: "Decoder_forward (decoder self) w1 (Tensor2 (1, 1) [[2]]) trg_mask (enc_primary enc_res)
            (get_pad_mask (Tensor2 (1, 1) [[1]]) (src_pad_idx ?c)) False = Inr (dec_res, w2)"
    and l0: "Linear_forward (params w2) (trg_word_prj self) (dec_primary dec_res) = Inr l0"
    using forward_parts [OF assms example_library_preserves_shape store src trg len pad] by blast
  have sp: "scale_prj self" "self_d_model self = 0"
    using f(9,12) by (simp_all add: example_args_def)
  show ?thesis
    unfolding Transformer_forward_spec f(13,14) m sum.case e prod.case d l0
    by (simp only: sp if_True refl)
qed


text \<open>
  Claim C5, amended. For a constructed Transformer: when the sharing of the target
  embedding and the projection is off, the encoder, the decoder and the projection scale
  nothing, and the constructor returns the same model and store for each of the three
  selectors, so that the logits do not depend on the selector. When the sharing is on,
  the selector \<open>emb\<close> sets the embedding scaling of encoder and decoder and not the
  scaling of the projection, \<open>prj\<close> sets the scaling of the projection only, and \<open>none\<close>
  sets none. An encoder or decoder that scales its embedding multiplies the looked-up
  rows by \<open>sqrt d_model\<close> before the positional encoding is added. A Transformer that
  scales its projection multiplies the logits of the projection by \<open>d_model ^ (- 1/2)\<close>
  before flattening them when \<open>d_model > 0\<close>; with \<open>d_model = 0\<close> the power raises a
  ZeroDivisionError at that point.
\<close>

theorem scaling_mode_semantics:
  assumes "Transformer_init lib c = Inr (self, st)"
  shows "(\<not> trg_emb_prj_weight_sharing c \<longrightarrow>
            \<not> enc_scale_emb (encoder self) \<and> \<not> dec_scale_emb (decoder self) \<and> \<not> scale_prj self
          \<and> (\<forall>s. s \<in> set [''emb'', ''prj'', ''none''] \<longrightarrow>
                Transformer_init lib (c\<lparr>scale_emb_or_prj := s\<rparr>) = Inr (self, st)))
       \<and> (trg_emb_prj_weight_sharing c \<and> scale_emb_or_prj c = ''emb'' \<longrightarrow>
            enc_scale_emb (encoder self) \<and> dec_scale_emb (decoder self) \<and> \<not> scale_prj self)
       \<and> (trg_emb_prj_weight_sharing c \<and> scale_emb_or_prj c = ''prj'' \<longrightarrow>
            \<not> enc_scale_emb (encoder self) \<and> \<not> dec_scale_emb (decoder self) \<and> scale_prj self)
       \<and> (trg_emb_prj_weight_sharing c \<and> scale_emb_or_prj c = ''none'' \<longrightarrow>
            \<not> enc_scale_emb (encoder self) \<and> \<not> dec_scale_emb (decoder self) \<and> \<not> scale_prj self)
       \<and> (\<forall>w src_seq src_mask ra.
            Encoder_forward (encoder self) w src_seq src_mask ra =
               (case Embedding_forward (params w) (src_word_emb (encoder self)) src_seq of
                  Inl e \<Rightarrow> Inl e
                | Inr emb \<Rightarrow>
               (case PositionalEncoding_forward (enc_position_enc (encoder self))
                       (if enc_scale_emb (encoder self)
                        then tmap3 (\<lambda>v. v * sqrt (real (d_model c))) emb else emb) of
                  Inl e \<Rightarrow> Inl e
                | Inr x \<Rightarrow>
               (case enc_dropout (encoder self) (rng w) x of (x, g) \<Rightarrow>
               (case spec_encoder_blocks (enc_layer_stack (encoder self)) src_mask g
                       (enc_layer_norm (encoder self) x) of
                  (y, attns, g') \<Rightarrow>
                    Inr (if ra then EncOutAttns y attns else EncOut y, w\<lparr>rng := g'\<rparr>))))))
       \<and> (\<forall>w trg_seq trg_mask enc_output src_mask ra.
            Decoder_forward (decoder self) w trg_seq trg_mask enc_output src_mask ra =
               (case Embedding_forward (params w) (trg_word_emb (decoder self)) trg_seq of
                  Inl e \<Rightarrow> Inl e
                | Inr emb \<Rightarrow>
               (case PositionalEncoding_forward (dec_position_enc (decoder self))
                       (if dec_scale_emb (decoder self)
                        then tmap3 (\<lambda>v. v * sqrt (real (d_model c))) emb else emb) of
                  Inl e \<Rightarrow> Inl e
                | Inr x \<Rightarrow>
               (case dec_dropout (decoder self) (rng w) x of (x, g) \<Rightarrow>
               (case spec_decoder_blocks (dec_layer_stack (decoder self)) enc_output trg_mask
                       src_mask g (dec_layer_norm (decoder self) x) of
                  (y, slf_attns, enc_attns, g') \<Rightarrow>
                    Inr (if ra then DecOutAttns y slf_attns enc_attns else DecOut y,
                         w\<lparr>rng := g'\<rparr>))))))
       \<and> (\<forall>w src_seq trg_seq.
            Transformer_forward self w src_seq trg_seq =
               (case and_tensor (get_pad_mask trg_seq (trg_pad_idx c))
                       (get_subsequent_mask trg_seq) of Inl e \<Rightarrow> Inl e
                | Inr trg_mask \<Rightarrow>
               (case Encoder_forward (encoder self) w src_seq
                       (get_pad_mask src_seq (src_pad_idx c)) False of Inl e \<Rightarrow> Inl e
                | Inr (enc_res, w1) \<Rightarrow>
               (case Decoder_forward (decoder self) w1 trg_seq trg_mask (enc_primary enc_res)
                       (get_pad_mask src_seq (src_pad_idx c)) False of Inl e \<Rightarrow> Inl e
                | Inr (dec_res, w2) \<Rightarrow>
               (case Linear_forward (params w2) (trg_word_prj self) (dec_primary dec_res) of
                  Inl e \<Rightarrow> Inl e
                | Inr logit \<Rightarrow>
                    if scale_prj self
                    then (if d_model c = 0 then Inl ZeroDivisionError
                          else (case view_rows
                                       (tmap3 (\<lambda>v. v * real (d_model c) powr (- (1 / 2))) logit) of
                                  Inl e \<Rightarrow> Inl e
                                | Inr out \<Rightarrow> Inr (out, w2)))
                    else (case view_rows logit of
                            Inl e \<Rightarrow> Inl e
                          | Inr out \<Rightarrow> Inr (out, w2)))))))"
proof -
  note f = Transformer_init_fields [OF assms]
  have legal: "scale_emb_or_prj c \<in> set [''emb'', ''prj'', ''none'']"
    using Transformer_init_accepted [OF assms] by (simp add: accepted_args_def)
  have irr: "Transformer_init lib (c\<lparr>scale_emb_or_prj := s\<rparr>) = Inr (self, st)"
    if "\<not> trg_emb_prj_weight_sharing c" "s \<in> set [''emb'', ''prj'', ''none'']" for s
    using Transformer_init_selector_irrelevant [OF that(1) legal that(2), of lib] assms by simp
  have enc: "Encoder_forward (encoder self) w src_seq src_mask ra =
               (case Embedding_forward (params w) (src_word_emb (encoder self)) src_seq of
                  Inl e \<Rightarrow> Inl e
                | Inr emb \<Rightarrow>
               (case PositionalEncoding_forward (enc_position_enc (encoder self))
                       (if enc_scale_emb (encoder self)
                        then tmap3 (\<lambda>v. v * sqrt (real (d_model c))) emb else emb) of
                  Inl e \<Rightarrow> Inl e
                | Inr x \<Rightarrow>
               (case enc_dropout (encoder self) (rng w) x of (x, g) \<Rightarrow>
               (case spec_encoder_blocks (enc_layer_stack (encoder self)) src_mask g
                       (enc_layer_norm (encoder self) x) of
                  (y, attns, g') \<Rightarrow>
                    Inr (if ra then EncOutAttns y attns else EncOut y, w\<lparr>rng := g'\<rparr>)))))"
    for w src_seq src_mask ra
    using Encoder_forward_spec [of "encoder self" w src_seq src_mask ra] by (simp only: f(10))
  have dec: "Decoder_forward (decoder self) w trg_seq trg_mask enc_output src_mask ra =
               (case Embedding_forward (params w) (trg_word_emb (decoder self)) trg_seq of
                  Inl e \<Rightarrow> Inl e
                | Inr emb \<Rightarrow>
               (case PositionalEncoding_forward (dec_position_enc (decoder self))
                       (if dec_scale_emb (decoder self)
                        then tmap3 (\<lambda>v. v * sqrt (real (d_model c))) emb else emb) of
                  Inl e \<Rightarrow> Inl e
                | Inr x \<Rightarrow>
               (case dec_dropout (decoder self) (rng w) x of (x, g) \<Rightarrow>
               (case spec_decoder_blocks (dec_layer_stack (decoder self)) enc_output trg_mask
                       src_mask g (dec_layer_norm (decoder self) x) of
                  (y, slf_attns, enc_attns, g') \<Rightarrow>
                    Inr (if ra then DecOutAttns y slf_attns enc_attns else DecOut y,
                         w\<lparr>rng := g'\<rparr>)))))"
    for w trg_seq trg_mask enc_output src_mask ra
    using Decoder_forward_spec [of "decoder self" w trg_seq trg_mask enc_output src_mask ra]
    by (simp only: f(11))
  have tf: "Transformer_forward self w src_seq trg_seq =
               (case and_tensor (get_pad_mask trg_seq (trg_pad_idx c))
                       (get_subsequent_mask trg_seq) of Inl e \<Rightarrow> Inl e
                | Inr trg_mask \<Rightarrow>
               (case Encoder_forward (encoder self) w src_seq
                       (get_pad_mask src_seq (src_pad_idx c)) False of Inl e \<Rightarrow> Inl e
                | Inr (enc_res, w1) \<Rightarrow>
               (case Decoder_forward (decoder self) w1 trg_seq trg_mask (enc_primary enc_res)
                       (get_pad_mask src_seq (src_pad_idx c)) False of Inl e \<Rightarrow> Inl e
                | Inr (dec_res, w2) \<Rightarrow>
               (case Linear_forward (params w2) (trg_word_prj self) (dec_primary dec_res) of
                  Inl e \<Rightarrow> Inl e
                | Inr logit \<Rightarrow>
                    if scale_prj self
                    then (if d_model c = 0 then Inl ZeroDivisionError
                          else (case view_rows
                                       (tmap3 (\<lambda>v. v * real (d_model c) powr (- (1 / 2))) logit) of
                                  Inl e \<Rightarrow> Inl e
                                | Inr out \<Rightarrow> Inr (out, w2)))
                    else (case view_rows logit of
                            Inl e \<Rightarrow> Inl e
                          | Inr out \<Rightarrow> Inr (out, w2))))))"
    for w src_seq trg_seq
    using Transformer_forward_spec [of self w src_seq trg_seq] by (simp only: f(12,13,14))
  show ?thesis
  proof (intro conjI impI allI)
    show "Transformer_init lib (c\<lparr>scale_emb_or_prj := s\<rparr>) = Inr (self, st)"
      if "\<not> trg_emb_prj_weight_sharing c" "s \<in> set [''emb'', ''prj'', ''none'']" for s
      using that by (rule irr)
  qed (use f(7-9) in simp_all, rule enc, rule dec, rule tf)
qed

theorem scaling_mode_semantics_witness:
  "(\<exists>self st.
      Transformer_init example_library (example_args\<lparr>scale_emb_or_prj := ''emb''\<rparr>)
        = Inr (self, st)
    \<and> enc_scale_emb (encoder self) \<and> dec_scale_emb (decoder self) \<and> \<not> scale_prj self
    \<and> Encoder_forward (encoder self) \<lparr>params = st, rng = 0\<rparr> (Tensor2 (1, 1) [[1]])
         (get_pad_mask (Tensor2 (1, 1) [[1]]) 0) False
       = Inr (EncOut (Tensor3 (1, 1, 2) [[[2 * sqrt 2, 3 * sqrt 2 + 1]]]),
              \<lparr>params = st, rng = 3\<rparr>))
   \<and> (\<exists>self st.
      Transformer_init example_library example_args = Inr (self, st)
    \<and> \<not> enc_scale_emb (encoder self) \<and> \<not> dec_scale_emb (decoder self) \<and> scale_prj self
    \<and> Transformer_forward self \<lparr>params = st, rng = 0\<rparr>
         (Tensor2 (1, 1) [[1]]) (Tensor2 (1, 1) [[2]])
       = Inr (Tensor2 (1, 4)
                [[13 * 2 powr (- (1 / 2)), 21 * 2 powr (- (1 / 2)),
                  29 * 2 powr (- (1 / 2)), 37 * 2 powr (- (1 / 2))]],
              \<lparr>params = st, rng = 6\<rparr>))
   \<and> (\<exists>self st.
        Transformer_init example_library (example_args\<lparr>trg_emb_prj_weight_sharing := False\<rparr>)
          = Inr (self, st)
      \<and> \<not> enc_scale_emb (encoder self) \<and> \<not> dec_scale_emb (decoder self) \<and> \<not> scale_prj self
      \<and> Transformer_init example_library
            (example_args\<lparr>trg_emb_prj_weight_sharing := False, scale_emb_or_prj := ''emb''\<rparr>)
          = Inr (self, st))"
proof (intro conjI)
  let ?c = "example_args\<lparr>scale_emb_or_prj := ''emb''\<rparr>"
  have "accepted_args ?c"
    by (simp add: accepted_args_def example_args_def)
  then obtain self st where i: "Transformer_init example_library ?c = Inr (self, st)"
    using Transformer_init_succeeds_iff [of example_library ?c] by blast
  note f = Transformer_init_fields [OF i]
  note s = scaling_mode_semantics [OF i]
  have h: "trg_emb_prj_weight_sharing ?c" "scale_emb_or_prj ?c = ''emb''"
    by (simp_all add: example_args_def)
  have fl: "enc_scale_emb (encoder self)" "dec_scale_emb (decoder self)" "\<not> scale_prj self"
    using s h by blast+
  have pe: "PositionalEncoding_init 2 4 = Inr (enc_position_enc (encoder self))"
    using f(15) by (simp add: example_args_def)
  have emb: "Embedding_forward st (src_word_emb (encoder self)) (Tensor2 (1, 1) [[1]])
           = Inr (Tensor3 (1, 1, 2) [[[2, 3]]])"
  proof -
    have a: "emb_weight (src_word_emb (encoder self)) = Suc 0"
      using f(3) by (simp add: example_args_def)
    have p: "padding_idx (src_word_emb (encoder self)) = 0"
      using f(23) by (simp add: example_args_def)
    have n: "new_store example_library ?c = new_store example_library example_args"
      by (simp add: new_store_def)
    have t: "st (Suc 0) = Tensor2 (4, 2) [[1, 2], [2, 3], [3, 4], [4, 5]]"
      unfolding f(1) n by (rule example_store)
    show ?thesis
      by (simp add: Embedding_forward_def a p t)
  qed
  have ls: "enc_layer_stack (encoder self)
      = map (\<lambda>k. new_EncoderLayer example_library k 2 4 1 2 2 (1 / 10)) [0..<2]"
    using f(21) by (simp add: example_args_def)
  have dr: "enc_dropout (encoder self) = (\<lambda>g x. (x, Suc g))"
    using f(17) by (simp add: example_library_def)
  have nm: "enc_layer_norm (encoder self) = (\<lambda>x. x)"
    using f(19) by (simp add: example_library_def)
  have dm: "d_model ?c = 2"
    by (simp add: example_args_def)
  note enc = s [THEN conjunct2, THEN conjunct2, THEN conjunct2, THEN conjunct2,
      THEN conjunct1, rule_format]
  have "Encoder_forward (encoder self) \<lparr>params = st, rng = 0\<rparr> (Tensor2 (1, 1) [[1]])
         (get_pad_mask (Tensor2 (1, 1) [[1]]) 0) False
       = Inr (EncOut (Tensor3 (1, 1, 2) [[[2 * sqrt 2, 3 * sqrt 2 + 1]]]),
              \<lparr>params = st, rng = 3\<rparr>)"
    unfolding enc
    using emb fl(1) example_pe_forward [OF pe, of "2 * sqrt 2" "3 * sqrt 2"]
    by (simp add: dm tmap3_def dr nm ls example_blocks_enc numeral_3_eq_3)
  with i fl show "\<exists>self st.
      Transformer_init example_library ?c = Inr (self, st)
    \<and> enc_scale_emb (encoder self) \<and> dec_scale_emb (decoder self) \<and> \<not> scale_prj self
    \<and> Encoder_forward (encoder self) \<lparr>params = st, rng = 0\<rparr> (Tensor2 (1, 1) [[1]])
         (get_pad_mask (Tensor2 (1, 1) [[1]]) 0) False
       = Inr (EncOut (Tensor3 (1, 1, 2) [[[2 * sqrt 2, 3 * sqrt 2 + 1]]]),
              \<lparr>params = st, rng = 3\<rparr>)"
    by blast
next
  obtain self st where i: "Transformer_init example_library example_args = Inr (self, st)"
    using example_init_ex by blast
  note f = Transformer_init_fields [OF i]
  note s = scaling_mode_semantics [OF i]
  have h: "trg_emb_prj_weight_sharing example_args" "scale_emb_or_prj example_args = ''prj''"
    by (simp_all add: example_args_def)
  have fl: "\<not> enc_scale_emb (encoder self)" "\<not> dec_scale_emb (decoder self)" "scale_prj self"
    using s h by blast+
  have wf: "wf2 (Tensor2 (1, 1) [[2::int]])" "size2 (Tensor2 (1, 1) [[2::int]]) = (1, 1)"
    by (simp_all add: wf2_def)
  have a: "lin_weight (trg_word_prj self) = Suc 0"
    using f(4) by (simp add: example_args_def)
  have t: "st (Suc 0) = Tensor2 (4, 2) [[1, 2], [2, 3], [3, 4], [4, 5]]"
    unfolding f(1) by (rule example_store)
  have lin: "Linear_forward st (trg_word_prj self) (Tensor3 (1, 1, 2) [[[3, 5]]])
      = Inr (Tensor3 (1, 1, 4) [[[13, 21, 29, 37]]])"
    by (simp add: Linear_forward_def a t dot_def)
  have dm: "d_model example_args = 2"
    by (simp add: example_args_def)
  note tf = s [THEN conjunct2, THEN conjunct2, THEN conjunct2, THEN conjunct2,
      THEN conjunct2, THEN conjunct2, rule_format]
  have "Transformer_forward self \<lparr>params = st, rng = 0\<rparr>
         (Tensor2 (1, 1) [[1]]) (Tensor2 (1, 1) [[2]])
       = Inr (Tensor2 (1, 4)
                [[13 * 2 powr (- (1 / 2)), 21 * 2 powr (- (1 / 2)),
                  29 * 2 powr (- (1 / 2)), 37 * 2 powr (- (1 / 2))]],
              \<lparr>params = st, rng = 6\<rparr>)"
    unfolding tf target_mask_mk3 [OF wf]
    using lin fl(3)
      example_Encoder_forward [OF i, of 0
        "get_pad_mask (Tensor2 (1, 1) [[1]]) (src_pad_idx example_args)" False]
      example_Decoder_forward [OF i, of "Suc (Suc (Suc 0))"
        "mk3 (1, 1, 1) (\<lambda>b i j. at2 (Tensor2 (1, 1) [[2]]) b j \<noteq> trg_pad_idx example_args \<and> j \<le> i)"
        "Tensor3 (1, 1, 2) [[[2, 4]]]"
        "get_pad_mask (Tensor2 (1, 1) [[1]]) (src_pad_idx example_args)" False]
    by (simp add: dm tmap3_def view_rows_def)
  with i fl show "\<exists>self st.
      Transformer_init example_library example_args = Inr (self, st)
    \<and> \<not> enc_scale_emb (encoder self) \<and> \<not> dec_scale_emb (decoder self) \<and> scale_prj self
    \<and> Transformer_forward self \<lparr>params = st, rng = 0\<rparr>
         (Tensor2 (1, 1) [[1]]) (Tensor2 (1, 1) [[2]])
       = Inr (Tensor2 (1, 4)
                [[13 * 2 powr (- (1 / 2)), 21 * 2 powr (- (1 / 2)),
                  29 * 2 powr (- (1 / 2)), 37 * 2 powr (- (1 / 2))]],
              \<lparr>params = st, rng = 6\<rparr>)"
    by blast
next
  let ?c = "example_args\<lparr>trg_emb_prj_weight_sharing := False\<rparr>"
  have "accepted_args ?c"
    by (simp add: accepted_args_def example_args_def)
  then obtain self st where i: "Transformer_init example_library ?c = Inr (self, st)"
    using Transformer_init_succeeds_iff [of example_library ?c] by blast
  have h: "\<not> trg_emb_prj_weight_sharing ?c" "''emb'' \<in> set [''emb'', ''prj'', ''none'']"
    by simp_all
  with scaling_mode_semantics [OF i]
  have "\<not> enc_scale_emb (encoder self)" "\<not> dec_scale_emb (decoder self)" "\<not> scale_prj self"
    "Transformer_init example_library (?c\<lparr>scale_emb_or_prj := ''emb''\<rparr>) = Inr (self, st)"
    by blast+
  with i show "\<exists>self st.
        Transformer_init example_library ?c = Inr (self, st)
      \<and> \<not> enc_scale_emb (encoder self) \<and> \<not> dec_scale_emb (decoder self) \<and> \<not> scale_prj self
      \<and> Transformer_init example_library
            (example_args\<lparr>trg_emb_prj_weight_sharing := False, scale_emb_or_prj := ''emb''\<rparr>)
          = Inr (self, st)"
    by auto
qed


text \<open>
  The claim C5 as it is written fails for a model of dimension 0 with shared weights and
  the selector \<open>prj\<close>: the constructor accepts the arguments, and the forward pass raises
  a ZeroDivisionError where the logits were to be multiplied by \<open>d_model ^ (- 1/2)\<close>.
\<close>

theorem scaling_mode_semantics_counterexample:
  "accepted_args (example_args\<lparr>d_word_vec := 0, d_model := 0\<rparr>)
   \<and> trg_emb_prj_weight_sharing (example_args\<lparr>d_word_vec := 0, d_model := 0\<rparr>)
   \<and> scale_emb_or_prj (example_args\<lparr>d_word_vec := 0, d_model := 0\<rparr>) = ''prj''
   \<and> Transformer_init example_library (example_args\<lparr>d_word_vec := 0, d_model := 0\<rparr>)
       = Inr (projr (Transformer_init example_library
                       (example_args\<lparr>d_word_vec := 0, d_model := 0\<rparr>)))
   \<and> Transformer_forward
         (fst (projr (Transformer_init example_library
                        (example_args\<lparr>d_word_vec := 0, d_model := 0\<rparr>))))
         \<lparr>params = snd (projr (Transformer_init example_library
                                  (example_args\<lparr>d_word_vec := 0, d_model := 0\<rparr>))),
          rng = 0\<rparr>
         (Tensor2 (1, 1) [[1]]) (Tensor2 (1, 1) [[2]])
       = Inl ZeroDivisionError"
proof -
  let ?c = "example_args\<lparr>d_word_vec := 0, d_model := 0\<rparr>"
  have acc: "accepted_args ?c"
    by (simp add: accepted_args_def example_args_def)
  then obtain self st where i: "Transformer_init example_library ?c = Inr (self, st)"
    using Transformer_init_succeeds_iff [of example_library ?c] by blast
  have "trg_emb_prj_weight_sharing ?c" "scale_emb_or_prj ?c = ''prj''"
    by (simp_all add: example_args_def)
  then show ?thesis
    using acc degenerate_forward [OF i] by (simp add: i)
qed
section \<open>The shapes of the forward pass\<close>

text \<open>
  Claim C8. For a constructed Transformer whose layers, dropout and normalisation
  preserve shapes, a store with the shapes of the constructed one, a source tensor of
  shape \<open>(B, Ls)\<close> and a target tensor of shape \<open>(B, Lt)\<close> whose ids are rows of the
  embedding tables and whose lengths are within the positional table, and a source
  padding index that is a row of the table the source embedding refers to: the encoder
  returns an output of shape \<open>(B, Ls, d_model)\<close>, the decoder one of shape
  \<open>(B, Lt, d_model)\<close>, the logits have shape \<open>(B, Lt, n_trg_vocab)\<close>, and
  \<open>Transformer.forward\<close> returns them flattened to shape \<open>(B * Lt, n_trg_vocab)\<close>, row
  \<open>b * Lt + t\<close> being the logits of position \<open>t\<close> of batch entry \<open>b\<close>.
\<close>

theorem forward_shapes:
  assumes init: "Transformer_init lib c = Inr (self, st)"
    and lib: "layers_preserve_shape lib"
    and store: "\<forall>a. wf2 (params w a) \<and> size2 (params w a) = size2 (st a)"
    and src: "wf2 src_seq" "size2 src_seq = (B, Ls)"
      "list_all (list_all (\<lambda>i. 0 \<le> i \<and>
          i < int (if emb_src_trg_weight_sharing c then n_trg_vocab c else n_src_vocab c)))
        (data2 src_seq)"
    and trg: "wf2 trg_seq" "size2 trg_seq = (B, Lt)"
      "list_all (list_all (\<lambda>i. 0 \<le> i \<and> i < int (n_trg_vocab c))) (data2 trg_seq)"
    and len: "Ls \<le> n_position c" "Lt \<le> n_position c"
    and pad: "emb_src_trg_weight_sharing c \<longrightarrow>
        (if src_pad_idx c < 0 then int (n_src_vocab c) + src_pad_idx c else src_pad_idx c)
          < int (n_trg_vocab c)"
    and dpos: "scale_prj self \<longrightarrow> 0 < d_model c"
  shows "\<exists>enc_res w1 trg_mask dec_res w2 logit out.
           Encoder_forward (encoder self) w src_seq (get_pad_mask src_seq (src_pad_idx c)) False
             = Inr (enc_res, w1)
         \<and> size3 (enc_primary enc_res) = (B, Ls, d_model c)
         \<and> and_tensor (get_pad_mask trg_seq (trg_pad_idx c)) (get_subsequent_mask trg_seq)
             = Inr trg_mask
         \<and> Decoder_forward (decoder self) w1 trg_seq trg_mask (enc_primary enc_res)
               (get_pad_mask src_seq (src_pad_idx c)) False
             = Inr (dec_res, w2)
         \<and> size3 (dec_primary dec_res) = (B, Lt, d_model c)
         \<and> seq_logit self w src_seq trg_seq = Inr (logit, w2)
         \<and> size3 logit = (B, Lt, n_trg_vocab c) \<and> wf3 logit
         \<and> Transformer_forward self w src_seq trg_seq = Inr (out, w2)
         \<and> size2 out = (B * Lt, n_trg_vocab c) \<and> wf2 out
         \<and> (\<forall>b t. b < B \<and> t < Lt \<longrightarrow> data2 out ! (b * Lt + t) = data3 logit ! b ! t)"
proof -
  note f = Transformer_init_fields [OF init]
  have vpos: "0 < n_trg_vocab c"
    using Transformer_init_accepted [OF init] by (auto simp: accepted_args_def)
  obtain enc_res w1 trg_mask dec_res w2 l0 where
    e: "Encoder_forward (encoder self) w src_seq (get_pad_mask src_seq (src_pad_idx c)) False
          = Inr (enc_res, w1)"
      "size3 (enc_primary enc_res) = (B, Ls, d_model c)"
    and m: "and_tensor (get_pad_mask trg_seq (trg_pad_idx c)) (get_subsequent_mask trg_seq)
          = Inr trg_mask"
    and d: "Decoder_forward (decoder self) w1 trg_seq trg_mask (enc_primary enc_res)
            (get_pad_mask src_seq (src_pad_idx c)) False = Inr (dec_res, w2)"
      "size3 (dec_primary dec_res) = (B, Lt, d_model c)"
    and l0: "Linear_forward (params w2) (trg_word_prj self) (dec_primary dec_res) = Inr l0"
      "wf3 l0" "size3 l0 = (B, Lt, n_trg_vocab c)"
    using forward_parts [OF init lib store src trg len pad] by blast
  define logit where "logit = (if scale_prj self
      then mul_scalar l0 (real (d_model c) powr (- (1 / 2))) else l0)"
  have lg: "wf3 logit" "size3 logit = (B, Lt, n_trg_vocab c)"
    using l0(2,3) by (simp_all add: logit_def mul_scalar_def wf3_tmap3 size3_tmap3)
  have sl: "seq_logit self w src_seq trg_seq = Inr (logit, w2)"
  proof (cases "scale_prj self")
    case True
    then have "py_pow (d_model c) (- (1 / 2)) = Inr (real (d_model c) powr (- (1 / 2)))"
      using dpos by (simp add: py_pow_neg_half)
    then show ?thesis
      using True by (simp add: seq_logit_def Let_def f(12,13,14) m e(1) d(1) l0(1) logit_def)
  next
    case False
    then show ?thesis
      by (simp add: seq_logit_def Let_def f(12,13,14) m e(1) d(1) l0(1) logit_def)
  qed
  obtain out where o: "view_rows logit = Inr out" "wf2 out" "size2 out = (B * Lt, n_trg_vocab c)"
    "\<forall>i j. i < B \<and> j < Lt \<longrightarrow> data2 out ! (i * Lt + j) = data3 logit ! i ! j"
    using view_rows_shape [OF lg vpos] by blast
  have tf: "Transformer_forward self w src_seq trg_seq = Inr (out, w2)"
    by (simp add: Transformer_forward_def sl o(1))
  show ?thesis
    using e m d sl lg tf o(2,3,4) by blast
qed

theorem forward_shapes_witness:
  "\<exists>self st out w2.
     Transformer_init example_library example_args = Inr (self, st)
   \<and> layers_preserve_shape example_library
   \<and> wf2 (Tensor2 (1, 4) [[1, 2, 3, 0::int]]) \<and> wf2 (Tensor2 (1, 3) [[1, 3, 0::int]])
   \<and> Transformer_forward self \<lparr>params = st, rng = 0\<rparr>
        (Tensor2 (1, 4) [[1, 2, 3, 0]]) (Tensor2 (1, 3) [[1, 3, 0]]) = Inr (out, w2)
   \<and> size2 out = (3, 4)"
proof -
  obtain self st where i: "Transformer_init example_library example_args = Inr (self, st)"
    using example_init_ex by blast
  have st: "st = new_store example_library example_args"
    by (rule Transformer_init_fields(1) [OF i])
  have store: "\<forall>a. wf2 (params \<lparr>params = st, rng = 0::nat\<rparr> a)
                 \<and> size2 (params \<lparr>params = st, rng = 0::nat\<rparr> a) = size2 (st a)"
    by (simp add: st wf2_new_store)
  have src: "wf2 (Tensor2 (1, 4) [[1, 2, 3, 0::int]])"
    "size2 (Tensor2 (1, 4) [[1, 2, 3, 0::int]]) = (1, 4)"
    "list_all (list_all (\<lambda>i. 0 \<le> i \<and>
        i < int (if emb_src_trg_weight_sharing example_args then n_trg_vocab example_args
                 else n_src_vocab example_args)))
      (data2 (Tensor2 (1, 4) [[1, 2, 3, 0::int]]))"
    by (simp_all add: wf2_def example_args_def)
  have trg: "wf2 (Tensor2 (1, 3) [[1, 3, 0::int]])"
    "size2 (Tensor2 (1, 3) [[1, 3, 0::int]]) = (1, 3)"
    "list_all (list_all (\<lambda>i. 0 \<le> i \<and> i < int (n_trg_vocab example_args)))
      (data2 (Tensor2 (1, 3) [[1, 3, 0::int]]))"
    by (simp_all add: wf2_def example_args_def)
  have len: "4 \<le> n_position example_args" "3 \<le> n_position example_args"
    and pad: "emb_src_trg_weight_sharing example_args \<longrightarrow>
        (if src_pad_idx example_args < 0
         then int (n_src_vocab example_args) + src_pad_idx example_args
         else src_pad_idx example_args) < int (n_trg_vocab example_args)"
    and dpos: "scale_prj self \<longrightarrow> 0 < d_model example_args"
    by (simp_all add: example_args_def)
  from forward_shapes [OF i example_library_preserves_shape store src trg len pad dpos]
  obtain out w2 where
    "Transformer_forward self \<lparr>params = st, rng = 0\<rparr>
        (Tensor2 (1, 4) [[1, 2, 3, 0]]) (Tensor2 (1, 3) [[1, 3, 0]]) = Inr (out, w2)"
    "size2 out = (1 * 3, n_trg_vocab example_args)"
    by blast
  then show ?thesis
    using i example_library_preserves_shape src(1) trg(1) by (auto simp: example_args_def)
qed

end
